(* ===== verification/Prelude.thy ===== *)
theory Prelude
  imports Main
begin

text \<open>
  Shared vocabulary of the development: the JavaScript values the screens handle
  (strings, \<open>undefined\<close>/\<open>null\<close>, truthiness), the errors a rejected promise or a
  thrown exception carries, and the effects a screen makes visible outside its own
  state (backend requests, alerts, navigation, console output).  An asynchronous
  handler is modelled as an action on an explicit world (the backend's state) together
  with the list of effects emitted so far; an exception is the \<open>Inl\<close> branch of the
  action's result and skips the rest of the \<open>try\<close> block.
\<close>

named_theorems act_simps \<open>evaluation rules of the action combinators\<close>

subsection \<open>JavaScript values\<close>

text \<open>
  A \<open>useState()\<close> without argument holds \<open>undefined\<close>; a text field that has been
  typed into holds a string.  Both are a \<open>string option\<close> (\<open>None\<close> for
  \<open>undefined\<close> or \<open>null\<close>).  Truthiness of a string is non-emptiness.
\<close>

type_synonym js_str = "string option"

definition truthy_str :: "string \<Rightarrow> bool" where
  "truthy_str s \<longleftrightarrow> s \<noteq> []"

definition truthy_opt :: "js_str \<Rightarrow> bool" where
  "truthy_opt v \<longleftrightarrow> (case v of None \<Rightarrow> False | Some s \<Rightarrow> truthy_str s)"

lemma truthy_opt_simps [simp]:
  "truthy_opt None = False"
  "truthy_opt (Some s) = (s \<noteq> [])"
  by (simp_all add: truthy_opt_def truthy_str_def)

lemma truthy_str_iff [simp]: "truthy_str s \<longleftrightarrow> s \<noteq> []"
  by (simp add: truthy_str_def)

text \<open>Decimal digits of a natural number, as \<open>String(n)\<close> prints it.\<close>

definition digit_char :: "nat \<Rightarrow> char" where
  "digit_char n = char_of (48 + n)"

fun decimal :: "nat \<Rightarrow> string" where
  "decimal n = (if n < 10 then [digit_char n] else decimal (n div 10) @ [digit_char (n mod 10)])"

declare decimal.simps [simp del]

lemma digit_char_simps [simp]:
  "digit_char 0 = CHR ''0''" "digit_char 1 = CHR ''1''" "digit_char 2 = CHR ''2''"
  "digit_char 3 = CHR ''3''" "digit_char 4 = CHR ''4''" "digit_char 5 = CHR ''5''"
  "digit_char 6 = CHR ''6''" "digit_char 7 = CHR ''7''" "digit_char 8 = CHR ''8''"
  "digit_char 9 = CHR ''9''"
  by code_simp+

definition digit_val :: "char \<Rightarrow> nat" where
  "digit_val c = of_char c - 48"

definition parse_decimal :: "string \<Rightarrow> nat" where
  "parse_decimal s = foldl (\<lambda>acc c. 10 * acc + digit_val c) 0 s"

lemma digit_val_char [simp]: "k < 10 \<Longrightarrow> digit_val (digit_char k) = k"
  by (simp add: digit_val_def digit_char_def)

lemma parse_decimal_snoc: "parse_decimal (s @ [c]) = 10 * parse_decimal s + digit_val c"
  by (simp add: parse_decimal_def)

lemma parse_decimal_decimal [simp]: "parse_decimal (decimal n) = n"
proof (induction n rule: decimal.induct)
  case (1 n)
  show ?case
  proof (cases "n < 10")
    case True
    then show ?thesis by (simp add: decimal.simps [of n] parse_decimal_def)
  next
    case False
    with "1.IH" show ?thesis by (simp add: decimal.simps [of n] parse_decimal_snoc)
  qed
qed

lemma decimal_inj [simp]: "decimal m = decimal n \<longleftrightarrow> m = n"
  by (metis parse_decimal_decimal)

lemma decimal_digits: "set (decimal n) \<subseteq> digit_char ` {..<10}"
proof (induction n rule: decimal.induct)
  case (1 n)
  then show ?case by (subst decimal.simps) auto
qed

subsection \<open>Errors\<close>

text \<open>
  The errors that reach a \<open>catch\<close> of the screens: a \<open>FirebaseError\<close> of the SDK
  (its \<open>code\<close> such as \<open>auth/email-already-in-use\<close> and its \<open>message\<close>), a
  \<open>TypeError\<close> (a failed \<open>fetch\<close>, a property read on \<open>undefined\<close>) and a
  \<open>RangeError\<close> (\<open>toISOString\<close> of an invalid date).  \<open>error.message\<close> is
  \<open>js_message\<close>.
\<close>

datatype js_error =
    FirebaseError string string
  | TypeError string
  | RangeError string

fun js_message :: "js_error \<Rightarrow> string" where
  "js_message (FirebaseError code msg) = msg"
| "js_message (TypeError msg) = msg"
| "js_message (RangeError msg) = msg"

subsection \<open>Observable effects\<close>

text \<open>
  Screens are named by the route names passed to \<open>navigation.navigate\<close>.  A stored
  document is a list of string fields in the order of the object literal; a blob is its
  byte string.
\<close>

datatype route = Home | Login | Register | Favorites

type_synonym doc_data = "(string \<times> string) list"

type_synonym blob = string

datatype request =
    SignIn js_str js_str
  | CreateUser string string
  | Fetch string
  | ReadBlob
  | UploadBytes string blob
  | GetDownloadURL string
  | SetDoc string string doc_data

datatype effect =
    Call request
  | Alert string string
  | Navigate route
  | ConsoleLog js_error

subsection \<open>Actions: world, effects, exceptions\<close>

text \<open>
  \<open>('w, 'a) act\<close> is an asynchronous computation run to completion: from the world
  and the effects so far it yields a value or the exception that was thrown, and the
  world and effects after it.  \<open>bindE\<close> is \<open>await\<close>-sequencing inside one
  \<open>try\<close> block: an exception skips the rest.
\<close>

type_synonym 'w io = "'w \<times> effect list"

type_synonym ('w, 'a) act = "'w io \<Rightarrow> (js_error + 'a) \<times> 'w io"

definition ret :: "'a \<Rightarrow> ('w, 'a) act" where
  "ret x = (\<lambda>\<sigma>. (Inr x, \<sigma>))"

definition bindE :: "('w, 'a) act \<Rightarrow> ('a \<Rightarrow> ('w, 'b) act) \<Rightarrow> ('w, 'b) act" where
  "bindE m f = (\<lambda>\<sigma>. case m \<sigma> of (Inl e, \<sigma>') \<Rightarrow> (Inl e, \<sigma>') | (Inr x, \<sigma>') \<Rightarrow> f x \<sigma>')"

definition emit :: "effect \<Rightarrow> ('w, unit) act" where
  "emit eff = (\<lambda>(w, effs). (Inr (), (w, effs @ [eff])))"

text \<open>
  \<open>await_call r op\<close>: the request \<open>r\<close> is sent (recorded), then the backend
  operation \<open>op\<close> runs on the world and either resolves or rejects.
\<close>

definition await_call :: "request \<Rightarrow> ('w \<Rightarrow> (js_error + 'a) \<times> 'w) \<Rightarrow> ('w, 'a) act" where
  "await_call r op = (\<lambda>(w, effs). case op w of (res, w') \<Rightarrow> (res, (w', effs @ [Call r])))"

text \<open>
  \<open>try_catch m h\<close> is \<open>try { m } catch (e) { h e }\<close>: an exception of \<open>m\<close>
  runs the handler from the world and effects reached when it was thrown.
\<close>

definition try_catch :: "('w, 'a) act \<Rightarrow> (js_error \<Rightarrow> ('w, 'a) act) \<Rightarrow> ('w, 'a) act" where
  "try_catch m h = (\<lambda>\<sigma>. case m \<sigma> of (Inl e, \<sigma>') \<Rightarrow> h e \<sigma>' | (Inr x, \<sigma>') \<Rightarrow> (Inr x, \<sigma>'))"

text \<open>A synchronous expression that may throw, inside an asynchronous block.\<close>

definition lift_sum :: "js_error + 'a \<Rightarrow> ('w, 'a) act" where
  "lift_sum r = (\<lambda>\<sigma>. (r, \<sigma>))"

text \<open>
  One step of evaluation for each combinator.  Applied to a concrete world, the
  simplifier runs an action through these equations as the program runs.
\<close>

lemma ret_apply [act_simps]: "ret x \<sigma> = (Inr x, \<sigma>)"
  by (simp add: ret_def)

lemma lift_sum_apply [act_simps]: "lift_sum r \<sigma> = (r, \<sigma>)"
  by (simp add: lift_sum_def)

lemma emit_apply [act_simps]: "emit eff (w, effs) = (Inr (), (w, effs @ [eff]))"
  by (simp add: emit_def)

lemma await_call_apply [act_simps]:
  "await_call r op (w, effs) = (fst (op w), (snd (op w), effs @ [Call r]))"
  by (simp add: await_call_def split: prod.split)

lemma bindE_apply [act_simps]:
  "bindE m f \<sigma> = (case m \<sigma> of (Inl e, \<sigma>') \<Rightarrow> (Inl e, \<sigma>') | (Inr x, \<sigma>') \<Rightarrow> f x \<sigma>')"
  by (simp add: bindE_def)

lemma try_catch_apply [act_simps]:
  "try_catch m h \<sigma> = (case m \<sigma> of (Inl e, \<sigma>') \<Rightarrow> h e \<sigma>' | (Inr x, \<sigma>') \<Rightarrow> (Inr x, \<sigma>'))"
  by (simp add: try_catch_def)

end
