(* ===== verification/Firebase_Api.thy ===== *)
theory Firebase_Api
  imports Prelude
begin

text \<open>
  The interface between the screens and the backend-as-a-service SDK.  The screens call
  six asynchronous operations (\<open>signInWithEmailAndPassword\<close>,
  \<open>createUserWithEmailAndPassword\<close>, \<open>fetch\<close> with \<open>response.blob()\<close>,
  \<open>uploadBytes\<close>, \<open>getDownloadURL\<close>, \<open>setDoc\<close>); a backend is a record of these
  operations over a world type \<open>'w\<close>, each resolving (\<open>Inr\<close>) or rejecting
  (\<open>Inl\<close>) and returning the world after it.  The screen theories are stated over an
  arbitrary backend; theory \<open>Firebase\<close> gives a concrete one.  The synchronous
  reference builders \<open>ref(storage, path)\<close> and \<open>doc(db, coll, key)\<close> are the
  path string and the (collection, key) pair.
\<close>

record fb_user =
  uid :: string
  user_email :: string

record 'w backend =
  sign_in :: "'w \<Rightarrow> js_str \<Rightarrow> js_str \<Rightarrow> (js_error + fb_user) \<times> 'w"
  create_user :: "'w \<Rightarrow> string \<Rightarrow> string \<Rightarrow> (js_error + fb_user) \<times> 'w"
  fetch_uri :: "'w \<Rightarrow> string \<Rightarrow> (js_error + blob) \<times> 'w"
  response_blob :: "'w \<Rightarrow> blob \<Rightarrow> (js_error + blob) \<times> 'w"
  upload_bytes :: "'w \<Rightarrow> string \<Rightarrow> blob \<Rightarrow> (js_error + unit) \<times> 'w"
  get_download_url :: "'w \<Rightarrow> string \<Rightarrow> (js_error + string) \<times> 'w"
  set_doc :: "'w \<Rightarrow> string \<Rightarrow> string \<Rightarrow> doc_data \<Rightarrow> (js_error + unit) \<times> 'w"

subsection \<open>The SDK calls as actions\<close>

text \<open>Each call records its request, then runs the backend operation.\<close>

definition signInWithEmailAndPassword :: "'w backend \<Rightarrow> js_str \<Rightarrow> js_str \<Rightarrow> ('w, fb_user) act" where
  "signInWithEmailAndPassword B e p = await_call (SignIn e p) (\<lambda>w. sign_in B w e p)"

definition createUserWithEmailAndPassword :: "'w backend \<Rightarrow> string \<Rightarrow> string \<Rightarrow> ('w, fb_user) act" where
  "createUserWithEmailAndPassword B e p = await_call (CreateUser e p) (\<lambda>w. create_user B w e p)"

definition fetch :: "'w backend \<Rightarrow> string \<Rightarrow> ('w, blob) act" where
  "fetch B u = await_call (Fetch u) (\<lambda>w. fetch_uri B w u)"

definition blob_of :: "'w backend \<Rightarrow> blob \<Rightarrow> ('w, blob) act" where
  "blob_of B r = await_call ReadBlob (\<lambda>w. response_blob B w r)"

definition uploadBytes :: "'w backend \<Rightarrow> string \<Rightarrow> blob \<Rightarrow> ('w, unit) act" where
  "uploadBytes B path b = await_call (UploadBytes path b) (\<lambda>w. upload_bytes B w path b)"

definition getDownloadURL :: "'w backend \<Rightarrow> string \<Rightarrow> ('w, string) act" where
  "getDownloadURL B path = await_call (GetDownloadURL path) (\<lambda>w. get_download_url B w path)"

definition setDoc :: "'w backend \<Rightarrow> string \<Rightarrow> string \<Rightarrow> doc_data \<Rightarrow> ('w, unit) act" where
  "setDoc B coll key d = await_call (SetDoc coll key d) (\<lambda>w. set_doc B w coll key d)"

lemmas sdk_defs = signInWithEmailAndPassword_def createUserWithEmailAndPassword_def
  fetch_def blob_of_def uploadBytes_def getDownloadURL_def setDoc_def

subsection \<open>Requests made by a run\<close>

text \<open>The backend requests among a list of effects, in order.\<close>

fun requests :: "effect list \<Rightarrow> request list" where
  "requests [] = []"
| "requests (Call r # effs) = r # requests effs"
| "requests (_ # effs) = requests effs"

lemma requests_append [simp]: "requests (xs @ ys) = requests xs @ requests ys"
  by (induction xs rule: requests.induct) auto

lemma requests_mem: "Call r \<in> set xs \<Longrightarrow> r \<in> set (requests xs)"
  by (induction xs rule: requests.induct) auto

text \<open>The navigations among a list of effects, in order.\<close>

fun navigations :: "effect list \<Rightarrow> route list" where
  "navigations [] = []"
| "navigations (Navigate r # effs) = r # navigations effs"
| "navigations (_ # effs) = navigations effs"

lemma navigations_append [simp]: "navigations (xs @ ys) = navigations xs @ navigations ys"
  by (induction xs rule: navigations.induct) auto

end
