(* ===== verification/LoginScreen.thy ===== *)
theory LoginScreen
  imports Firebase_Api
begin

text \<open>
  The login screen, \<open>src/screens/Login.js\<close>: two text fields held in React state
  (\<open>useState()\<close>, so \<open>undefined\<close> until typed into), the asynchronous handler
  \<open>logueo\<close> bound to the Sign In button, and the Register button that navigates to the
  registration screen.  \<open>login_step\<close> runs a press's handler to completion;
  \<open>login_race\<close> splits \<open>logueo\<close> at its \<open>await\<close> and interleaves two presses.
\<close>

record login_state =
  login_email :: js_str
  login_password :: js_str

definition login_init :: login_state where
  "login_init = \<lparr>login_email = None, login_password = None\<rparr>"

subsection \<open>The handler \<open>logueo\<close>\<close>

definition login_error_title :: string where
  "login_error_title = ''Error''"

text \<open>\<open>'El usuario o contrase\<tilde>na son incorrectos.'\<close>, with the \<open>n\<close>-tilde as its UTF-8 bytes.\<close>

definition login_error_msg :: string where
  "login_error_msg = ''El usuario o contrase'' @ [CHR 0xC3, CHR 0xB1] @ ''a son incorrectos.''"

definition logueo :: "'w backend \<Rightarrow> login_state \<Rightarrow> ('w, unit) act" where
  "logueo B s =
     try_catch
       (bindE (signInWithEmailAndPassword B (login_email s) (login_password s)) (\<lambda>_.
        bindE (emit (Alert ''Iniciando Sesion'' ''Accediendo.....'')) (\<lambda>_.
        emit (Navigate Home))))
       (\<lambda>error.
        bindE (emit (ConsoleLog error)) (\<lambda>_.
        emit (Alert login_error_title login_error_msg)))"

subsection \<open>Events of the screen\<close>

text \<open>
  The four controls of the rendered view and the handler each is bound to: the two
  \<open>TextInput\<close>s call \<open>setEmail\<close>/\<open>setPassword\<close> with the text, Sign In runs
  \<open>logueo\<close>, Register calls \<open>props.navigation.navigate('Register')\<close>.
\<close>

datatype login_event =
    LoginEmailText string
  | LoginPasswordText string
  | SignInPress
  | RegisterLinkPress

fun login_step :: "'w backend \<Rightarrow> login_state \<times> 'w io \<Rightarrow> login_event \<Rightarrow> login_state \<times> 'w io" where
  "login_step B (s, \<sigma>) (LoginEmailText t) = (s\<lparr>login_email := Some t\<rparr>, \<sigma>)"
| "login_step B (s, \<sigma>) (LoginPasswordText t) = (s\<lparr>login_password := Some t\<rparr>, \<sigma>)"
| "login_step B (s, \<sigma>) SignInPress = (s, snd (logueo B s \<sigma>))"
| "login_step B (s, \<sigma>) RegisterLinkPress = (s, snd (emit (Navigate Register) \<sigma>))"

fun login_run :: "'w backend \<Rightarrow> login_state \<times> 'w io \<Rightarrow> login_event list \<Rightarrow> login_state \<times> 'w io" where
  "login_run B c [] = c"
| "login_run B c (ev # evs) = login_run B (login_step B c ev) evs"

subsection \<open>Behaviour of \<open>logueo\<close>\<close>

text \<open>
  The two branches of the handler, each as the exact effects it appends and the world it
  leaves.  Neither branch reads the fields for validation: the request carries whatever
  the fields hold, \<open>undefined\<close> included.
\<close>

text \<open>
  C7: When sign-in resolves, \<open>logueo\<close> sends the fields as they are, shows the
  confirmation alert and navigates to Home exactly once; no error alert is shown.
\<close>

theorem logueo_resolves:
  assumes "sign_in B w (login_email s) (login_password s) = (Inr u, w')"
  shows "logueo B s (w, effs) =
           (Inr (), (w', effs @ [Call (SignIn (login_email s) (login_password s)),
                                Alert ''Iniciando Sesion'' ''Accediendo.....'', Navigate Home]))"
  using assms
  by (simp add: logueo_def sdk_defs act_simps)

text \<open>
  C8: When sign-in rejects, whatever the reason, \<open>logueo\<close> logs the error and shows the
  fixed alert \<open>Error / El usuario o contrase\<tilde>na son incorrectos.\<close>; it does not navigate.
\<close>

theorem logueo_rejects:
  assumes "sign_in B w (login_email s) (login_password s) = (Inl err, w')"
  shows "logueo B s (w, effs) =
           (Inr (), (w', effs @ [Call (SignIn (login_email s) (login_password s)),
                                ConsoleLog err, Alert login_error_title login_error_msg]))"
  using assms
  by (simp add: logueo_def sdk_defs act_simps)

text \<open>The handler catches every rejection: its promise always resolves.\<close>

lemma logueo_never_throws: "fst (logueo B s \<sigma>) = Inr ()"
  by (cases \<sigma>) (simp add: logueo_def sdk_defs act_simps split: prod.split sum.split)

subsection \<open>Two presses of Sign In interleaved\<close>

text \<open>
  \<open>logueo\<close> as a resumable process.  Its one \<open>await\<close> (line 12) splits it in two: the
  request and its outcome, then, when the event loop resumes it, the rest of the
  \<open>try\<close> block (lines 13 and 14) or the \<open>catch\<close> block (lines 16 and 17).  Between the
  two the button stays enabled (line 37 has no guard), so a second press starts a second
  invocation over the same fields.
\<close>

datatype login_pc = LgStart | LgSignedIn | LgCaught js_error | LgDone

definition login_catch :: "js_error \<Rightarrow> ('w, login_pc) act" where
  "login_catch error =
     bindE (emit (ConsoleLog error)) (\<lambda>_.
     bindE (emit (Alert login_error_title login_error_msg)) (\<lambda>_. ret LgDone))"

fun logueo_resume :: "'w backend \<Rightarrow> login_state \<Rightarrow> login_pc \<Rightarrow> ('w, login_pc) act" where
  "logueo_resume B s LgStart =
     try_catch
       (bindE (signInWithEmailAndPassword B (login_email s) (login_password s)) (\<lambda>_. ret LgSignedIn))
       (\<lambda>error. ret (LgCaught error))"
| "logueo_resume B s LgSignedIn =
     try_catch
       (bindE (emit (Alert ''Iniciando Sesion'' ''Accediendo.....'')) (\<lambda>_.
        bindE (emit (Navigate Home)) (\<lambda>_. ret LgDone)))
       login_catch"
| "logueo_resume B s (LgCaught error) = login_catch error"
| "logueo_resume B s LgDone = ret LgDone"

text \<open>
  Two invocations and the shared world and effects, resumed in the order of a schedule
  (\<open>True\<close> resumes the first press, \<open>False\<close> the second).
\<close>

fun login_race ::
  "'w backend \<Rightarrow> login_state \<Rightarrow> login_pc \<times> login_pc \<times> 'w io \<Rightarrow> bool list \<Rightarrow> login_pc \<times> login_pc \<times> 'w io" where
  "login_race B s c [] = c"
| "login_race B s (p1, p2, \<sigma>) (t # ts) =
     (case logueo_resume B s (if t then p1 else p2) \<sigma> of
        (r, \<sigma>') \<Rightarrow>
          let p = (case r of Inr p \<Rightarrow> p | Inl _ \<Rightarrow> LgDone)
          in login_race B s (if t then (p, p2, \<sigma>') else (p1, p, \<sigma>')) ts)"

text \<open>Resumed twice, an invocation does exactly what \<open>logueo\<close> does run to completion.\<close>

lemma logueo_resume_twice:
  "login_race B s (LgStart, LgDone, \<sigma>) [True, True] = (LgDone, LgDone, snd (logueo B s \<sigma>))"
  by (cases \<sigma>)
     (simp add: logueo_def login_catch_def sdk_defs act_simps split: prod.split sum.split)

text \<open>
  C22: The Sign In button has no in-flight guard.  A second press while the first
  sign-in is pending sends a second request before the first invocation resumes; when
  both resolve, each invocation then shows the confirmation alert and calls
  \<open>navigate('Home')\<close>, so Home is pushed twice.
\<close>

theorem double_sign_in:
  assumes "sign_in B w (login_email s) (login_password s) = (Inr u, w')"
    and "sign_in B w' (login_email s) (login_password s) = (Inr u', w'')"
  shows "login_race B s (LgStart, LgStart, (w, effs)) [True, False, True, False] =
           (LgDone, LgDone, (w'', effs @ [Call (SignIn (login_email s) (login_password s)),
                             Call (SignIn (login_email s) (login_password s)),
                             Alert ''Iniciando Sesion'' ''Accediendo.....'', Navigate Home,
                             Alert ''Iniciando Sesion'' ''Accediendo.....'', Navigate Home])) \<and>
         navigations (snd (snd (snd (login_race B s (LgStart, LgStart, (w, effs)) [True, False, True, False])))) =
           navigations effs @ [Home, Home]"
  using assms by (simp add: sdk_defs act_simps)

end
