(* ===== verification/JsDate.thy ===== *)
theory JsDate
  imports Prelude
begin

text \<open>
  The part of JavaScript's \<open>Date\<close> that the registration screen uses: the time value
  (milliseconds since the epoch, or NaN), the calendar arithmetic of ECMAScript
  (\<open>Day\<close>, \<open>DayFromYear\<close>, \<open>YearFromTime\<close>, \<open>MonthFromTime\<close>,
  \<open>DateFromTime\<close>, \<open>MakeDay\<close>, \<open>WeekDay\<close>), \<open>toISOString\<close> (used at
  \<open>RegisterScreen.js\<close> line 54 to store the birth date) and \<open>toDateString\<close> (used at
  line 133 to show it).  This is the runtime's behaviour, modelled from the ECMAScript
  definitions; the screen's code that calls it is in theory \<open>RegisterScreen\<close>.
  \<open>YearFromTime\<close> is specified as the largest year whose first millisecond is not
  after the time; it is computed here, on the day number, by \<open>YearFromDay\<close>, an upward
  search from an estimate, and \<open>YearFromDay_bracket\<close> shows the year found brackets the
  day.
\<close>

subsection \<open>Time values\<close>

datatype js_date = DateVal int | InvalidDate

definition maxTime :: int where
  "maxTime = 8640000000000000"

definition TimeClip :: "int \<Rightarrow> js_date" where
  "TimeClip t = (if \<bar>t\<bar> > maxTime then InvalidDate else DateVal t)"

fun valid_date :: "js_date \<Rightarrow> bool" where
  "valid_date (DateVal t) \<longleftrightarrow> \<bar>t\<bar> \<le> maxTime"
| "valid_date InvalidDate \<longleftrightarrow> False"

definition msPerDay :: int where
  "msPerDay = 86400000"

definition Day :: "int \<Rightarrow> int" where
  "Day t = t div msPerDay"

definition TimeWithinDay :: "int \<Rightarrow> int" where
  "TimeWithinDay t = t mod msPerDay"

subsection \<open>Years\<close>

definition DaysInYear :: "int \<Rightarrow> int" where
  "DaysInYear y =
     (if y mod 4 \<noteq> 0 then 365 else if y mod 100 \<noteq> 0 then 366
      else if y mod 400 \<noteq> 0 then 365 else 366)"

definition DayFromYear :: "int \<Rightarrow> int" where
  "DayFromYear y = 365 * (y - 1970) + (y - 1969) div 4 - (y - 1901) div 100 + (y - 1601) div 400"

definition InLeapYear :: "int \<Rightarrow> bool" where
  "InLeapYear y \<longleftrightarrow> DaysInYear y = 366"

lemma div_succ:
  assumes k: "(1::int) < k"
  shows "(a + 1) div k = a div k + (if (a + 1) mod k = 0 then 1 else 0)"
proof -
  define m where "m = a mod k"
  have r: "0 \<le> m" "m < k" using k by (simp_all add: m_def)
  have e: "(a + 1) div k = a div k + (m + 1) div k"
    using k by (simp add: m_def div_add1_eq [of a 1 k])
  have md: "(a + 1) mod k = (m + 1) mod k"
    by (simp add: m_def mod_add_left_eq)
  show ?thesis
  proof (cases "m + 1 = k")
    case True
    then have "(m + 1) div k = 1" "(m + 1) mod k = 0" using k by simp_all
    with e md show ?thesis by simp
  next
    case False
    with r have "0 \<le> m + 1" "m + 1 < k" by simp_all
    then have "(m + 1) div k = 0" "(m + 1) mod k = m + 1" by simp_all
    with e md r show ?thesis by simp
  qed
qed

lemma le_div_iff_int:
  assumes k: "(0::int) < k"
  shows "m \<le> a div k \<longleftrightarrow> k * m \<le> a"
proof
  assume "m \<le> a div k"
  then have "k * m \<le> k * (a div k)" using k by simp
  also have "\<dots> \<le> a"
  proof -
    have "k * (a div k) + a mod k = a" by (rule mult_div_mod_eq)
    moreover have "0 \<le> a mod k" using k by simp
    ultimately show ?thesis by linarith
  qed
  finally show "k * m \<le> a" .
next
  assume "k * m \<le> a"
  then have "(k * m) div k \<le> a div k" using k by (rule zdiv_mono1)
  then show "m \<le> a div k" using k by simp
qed

lemma mod_shift: "(y - k * c) mod (k::int) = y mod k"
  by (metis mod_mult_self1 diff_conv_add_uminus mult.commute mult_minus_left)

lemma div_succ_shift:
  assumes "(1::int) < k" "a + 1 = y - k * c"
  shows "(a + 1) div k = a div k + (if y mod k = 0 then 1 else 0)"
  using div_succ [OF assms(1), of a] mod_shift [of y k c] assms(2) by simp

text \<open>Consecutive years start \<open>DaysInYear\<close> days apart: the closed formula counts the days.\<close>

lemma DayFromYear_step: "DayFromYear (y + 1) = DayFromYear y + DaysInYear y"
proof -
  have a: "(y - 1969 + 1) div 4 = (y - 1969) div 4 + (if y mod 4 = 0 then 1 else 0)"
    by (rule div_succ_shift [where c = 492]) simp_all
  have b: "(y - 1901 + 1) div 100 = (y - 1901) div 100 + (if y mod 100 = 0 then 1 else 0)"
    by (rule div_succ_shift [where c = 19]) simp_all
  have c: "(y - 1601 + 1) div 400 = (y - 1601) div 400 + (if y mod 400 = 0 then 1 else 0)"
    by (rule div_succ_shift [where c = 4]) simp_all
  have d1: "y mod 400 = 0 \<Longrightarrow> y mod 100 = 0"
    using dvd_trans [of 100 400 y] by (simp add: dvd_eq_mod_eq_0 [symmetric])
  have d2: "y mod 100 = 0 \<Longrightarrow> y mod 4 = 0"
    using dvd_trans [of 4 100 y] by (simp add: dvd_eq_mod_eq_0 [symmetric])
  have s: "y + 1 - 1969 = y - 1969 + 1" "y + 1 - 1901 = y - 1901 + 1"
    "y + 1 - 1601 = y - 1601 + 1"
    by simp_all
  show ?thesis
    unfolding DayFromYear_def DaysInYear_def s a b c using d1 d2 by auto
qed

lemma DaysInYear_bounds: "365 \<le> DaysInYear y" "DaysInYear y \<le> 366"
  by (simp_all add: DaysInYear_def)

lemma DayFromYear_1970 [simp]: "DayFromYear 1970 = 0"
  by (simp add: DayFromYear_def)

lemma DayFromYear_less_succ: "DayFromYear y < DayFromYear (y + 1)"
  using DayFromYear_step [of y] DaysInYear_bounds(1) [of y] by simp

lemma DayFromYear_strict_mono:
  assumes "y < y'"
  shows "DayFromYear y < DayFromYear y'"
  using assms
proof (induction y' rule: int_gr_induct)
  case base
  show ?case by (rule DayFromYear_less_succ)
next
  case (step i)
  then show ?case using DayFromYear_less_succ [of i] by simp
qed

lemma DayFromYear_mono_iff: "DayFromYear y < DayFromYear y' \<longleftrightarrow> y < y'"
  by (metis DayFromYear_strict_mono linorder_neqE_linordered_idom order_less_asym')

lemma DayFromYear_after_1970: "DayFromYear (1970 + int n) \<le> 366 * int n"
proof (induction n)
  case 0
  then show ?case by simp
next
  case (Suc n)
  have "DayFromYear (1970 + int (Suc n)) = DayFromYear (1970 + int n) + DaysInYear (1970 + int n)"
    using DayFromYear_step [of "1970 + int n"] by (simp add: add.assoc)
  with Suc DaysInYear_bounds(2) [of "1970 + int n"] show ?case by simp
qed

lemma DayFromYear_before_1970: "DayFromYear (1970 - int n) \<le> - 365 * int n"
proof (induction n)
  case 0
  then show ?case by simp
next
  case (Suc n)
  have "DayFromYear (1970 - int n) = DayFromYear (1970 - int (Suc n)) + DaysInYear (1970 - int (Suc n))"
    using DayFromYear_step [of "1970 - int (Suc n)"] by simp
  with Suc DaysInYear_bounds(1) [of "1970 - int (Suc n)"] show ?case by simp
qed

subsection \<open>\<open>YearFromTime\<close>\<close>

text \<open>
  The search climbs from a year that starts no later than the day; it stops at the first
  year whose successor starts after the day.  What decreases is the distance from the
  year's first day to the day.
\<close>

function year_up :: "int \<Rightarrow> int \<Rightarrow> int" where
  "year_up d y = (if DayFromYear (y + 1) \<le> d then year_up d (y + 1) else y)"
  by pat_completeness auto
termination
  by (relation "measure (\<lambda>(d, y). nat (d - DayFromYear y))")
     (auto intro: less_le_trans [OF DayFromYear_less_succ])

declare year_up.simps [simp del]

definition year_estimate :: "int \<Rightarrow> int" where
  "year_estimate d = 1970 + (if 0 \<le> d then d div 366 else d div 365)"

definition YearFromDay :: "int \<Rightarrow> int" where
  "YearFromDay d = year_up d (year_estimate d)"

lemma year_estimate_le: "DayFromYear (year_estimate d) \<le> d"
proof (cases "0 \<le> d")
  case True
  define n where "n = nat (d div 366)"
  from True have "year_estimate d = 1970 + int n" by (simp add: year_estimate_def n_def)
  moreover from True have "366 * int n \<le> d"
    using le_div_iff_int [of 366 "d div 366" d] by (simp add: n_def)
  ultimately show ?thesis using DayFromYear_after_1970 [of n] by simp
next
  case False
  define n where "n = nat (- (d div 365))"
  from False have "year_estimate d = 1970 - int n" by (simp add: year_estimate_def n_def)
  moreover from False have "- 365 * int n \<le> d"
    using le_div_iff_int [of 365 "d div 365" d] by (simp add: n_def)
  ultimately show ?thesis using DayFromYear_before_1970 [of n] by simp
qed

lemma year_up_bracket:
  "DayFromYear y \<le> d \<Longrightarrow> DayFromYear (year_up d y) \<le> d \<and> d < DayFromYear (year_up d y + 1)"
proof (induction d y rule: year_up.induct)
  case (1 d y)
  show ?case
  proof (cases "DayFromYear (y + 1) \<le> d")
    case True
    with "1.IH" show ?thesis by (simp add: year_up.simps [of d y])
  next
    case False
    with "1.prems" show ?thesis by (simp add: year_up.simps [of d y])
  qed
qed

lemma YearFromDay_bracket:
  "DayFromYear (YearFromDay d) \<le> d \<and> d < DayFromYear (YearFromDay d + 1)"
  unfolding YearFromDay_def by (rule year_up_bracket [OF year_estimate_le])

lemma YearFromDay_unique:
  assumes "DayFromYear y \<le> d" "d < DayFromYear (y + 1)"
  shows "YearFromDay d = y"
proof -
  have b: "DayFromYear (YearFromDay d) \<le> d" "d < DayFromYear (YearFromDay d + 1)"
    using YearFromDay_bracket [of d] by simp_all
  from assms b have "DayFromYear (YearFromDay d) < DayFromYear (y + 1)"
    "DayFromYear y < DayFromYear (YearFromDay d + 1)" by simp_all
  then show ?thesis unfolding DayFromYear_mono_iff by simp
qed

subsection \<open>Months and dates\<close>

definition DayWithinYear :: "int \<Rightarrow> int" where
  "DayWithinYear d = d - DayFromYear (YearFromDay d)"

definition MonthStart :: "bool \<Rightarrow> nat \<Rightarrow> int" where
  "MonthStart leap m =
     [0, 31, 59, 90, 120, 151, 181, 212, 243, 273, 304, 334] ! m + (if leap \<and> 2 \<le> m then 1 else 0)"

definition DaysInMonth :: "bool \<Rightarrow> nat \<Rightarrow> int" where
  "DaysInMonth leap m =
     [31, 28, 31, 30, 31, 30, 31, 31, 30, 31, 30, 31] ! m + (if leap \<and> m = 1 then 1 else 0)"

text \<open>\<open>MonthFromTime\<close> and \<open>DateFromTime\<close>, case by case as ECMAScript states them, on the day within the year.\<close>

definition MonthFromDwy :: "bool \<Rightarrow> int \<Rightarrow> nat" where
  "MonthFromDwy leap d =
     (let l = (if leap then 1 else 0) in
      if d < 31 then 0 else if d < 59 + l then 1 else if d < 90 + l then 2
      else if d < 120 + l then 3 else if d < 151 + l then 4 else if d < 181 + l then 5
      else if d < 212 + l then 6 else if d < 243 + l then 7 else if d < 273 + l then 8
      else if d < 304 + l then 9 else if d < 334 + l then 10 else 11)"

definition date_table :: "bool \<Rightarrow> nat \<Rightarrow> int \<Rightarrow> int" where
  "date_table leap m d =
     (let l = (if leap then 1 else 0) in
      if m = 0 then d + 1 else if m = 1 then d - 30 else if m = 2 then d - 58 - l
      else if m = 3 then d - 89 - l else if m = 4 then d - 119 - l
      else if m = 5 then d - 150 - l else if m = 6 then d - 180 - l
      else if m = 7 then d - 211 - l else if m = 8 then d - 242 - l
      else if m = 9 then d - 272 - l else if m = 10 then d - 303 - l else d - 333 - l)"

definition DateFromDwy :: "bool \<Rightarrow> int \<Rightarrow> int" where
  "DateFromDwy leap d = date_table leap (MonthFromDwy leap d) d"

definition MonthFromDay :: "int \<Rightarrow> nat" where
  "MonthFromDay d = MonthFromDwy (InLeapYear (YearFromDay d)) (DayWithinYear d)"

definition DateFromDay :: "int \<Rightarrow> int" where
  "DateFromDay d = DateFromDwy (InLeapYear (YearFromDay d)) (DayWithinYear d)"

text \<open>\<open>MakeDay(year, month, date)\<close>, with the month carried into the year as ECMAScript does.\<close>

definition MakeDay :: "int \<Rightarrow> int \<Rightarrow> int \<Rightarrow> int" where
  "MakeDay y m dt =
     (let ym = y + m div 12; mn = nat (m mod 12)
      in DayFromYear ym + MonthStart (InLeapYear ym) mn + dt - 1)"

definition WeekDay :: "int \<Rightarrow> int" where
  "WeekDay d = (d + 4) mod 7"

subsection \<open>Calendar arithmetic is correct\<close>

lemma DaysInYear_leap: "DaysInYear y = (if InLeapYear y then 366 else 365)"
  by (simp add: InLeapYear_def DaysInYear_def)

lemma DayWithinYear_bounds:
  "0 \<le> DayWithinYear d \<and> DayWithinYear d < DaysInYear (YearFromDay d)"
  using YearFromDay_bracket [of d] DayFromYear_step [of "YearFromDay d"]
  by (simp add: DayWithinYear_def)

lemma MonthFromDwy_less: "MonthFromDwy leap d < 12"
  by (simp add: MonthFromDwy_def Let_def)

text \<open>ECMAScript's table of \<open>DateFromTime\<close> is the day within the year minus the month's first day.\<close>

lemma date_table_eq:
  assumes "m < 12"
  shows "date_table leap m d = d - MonthStart leap m + 1"
proof -
  from assms have "m \<in> {0..<12}" by simp
  also have "{0..<12} = {0, 1, 2, 3, 4, 5, 6, 7, 8, 9, 10, 11::nat}" by code_simp
  finally show ?thesis by (auto simp: date_table_def MonthStart_def Let_def)
qed

lemma DateFromDwy_eq: "DateFromDwy leap d = d - MonthStart leap (MonthFromDwy leap d) + 1"
  unfolding DateFromDwy_def by (rule date_table_eq [OF MonthFromDwy_less])

lemma MonthFromDwy_bracket:
  assumes "0 \<le> d" "d < (if leap then 366 else 365)"
  shows "MonthStart leap (MonthFromDwy leap d) \<le> d \<and>
         d < MonthStart leap (MonthFromDwy leap d) + DaysInMonth leap (MonthFromDwy leap d)"
  using assms by (cases leap) (simp_all add: MonthFromDwy_def MonthStart_def DaysInMonth_def Let_def)

lemma DateFromDay_bounds:
  "1 \<le> DateFromDay d \<and> DateFromDay d \<le> DaysInMonth (InLeapYear (YearFromDay d)) (MonthFromDay d)"
proof -
  define leap where "leap = InLeapYear (YearFromDay d)"
  define w where "w = DayWithinYear d"
  have "0 \<le> w" "w < (if leap then 366 else 365)"
    using DayWithinYear_bounds [of d] DaysInYear_leap [of "YearFromDay d"]
    by (simp_all add: leap_def w_def)
  from MonthFromDwy_bracket [OF this] show ?thesis
    by (simp add: MonthFromDay_def DateFromDay_def DateFromDwy_eq
        leap_def [symmetric] w_def [symmetric])
qed

lemma MonthFromDay_less: "MonthFromDay d < 12"
  by (simp add: MonthFromDay_def MonthFromDwy_less)

text \<open>\<open>MakeDay\<close> inverts the calendar decomposition: the year, month and date of a day give back that day.\<close>

lemma MakeDay_civil: "MakeDay (YearFromDay d) (int (MonthFromDay d)) (DateFromDay d) = d"
proof -
  have m: "int (MonthFromDay d) div 12 = 0" "nat (int (MonthFromDay d) mod 12) = MonthFromDay d"
    using MonthFromDay_less [of d] by simp_all
  show ?thesis
    unfolding MakeDay_def Let_def m
    by (simp add: DateFromDay_def MonthFromDay_def DateFromDwy_eq DayWithinYear_def)
qed

subsection \<open>Formatting\<close>

text \<open>\<open>ToZeroPaddedDecimalString(n, width)\<close>.\<close>

definition pad0 :: "nat \<Rightarrow> nat \<Rightarrow> string" where
  "pad0 w n = (let s = decimal n in replicate (w - length s) (CHR ''0'') @ s)"

definition HourFromTime :: "int \<Rightarrow> int" where
  "HourFromTime t = (t div 3600000) mod 24"

definition MinFromTime :: "int \<Rightarrow> int" where
  "MinFromTime t = (t div 60000) mod 60"

definition SecFromTime :: "int \<Rightarrow> int" where
  "SecFromTime t = (t div 1000) mod 60"

definition msFromTime :: "int \<Rightarrow> int" where
  "msFromTime t = t mod 1000"

text \<open>
  The date part of the ISO format: a four-digit year for years 0 to 9999 and a signed
  six-digit year otherwise, then month and date, two digits each.
\<close>

definition iso_year :: "int \<Rightarrow> string" where
  "iso_year y =
     (if 0 \<le> y \<and> y \<le> 9999 then pad0 4 (nat y)
      else (if y < 0 then ''-'' else ''+'') @ pad0 6 (nat \<bar>y\<bar>))"

definition iso_date :: "int \<Rightarrow> string" where
  "iso_date d =
     iso_year (YearFromDay d) @ ''-'' @ pad0 2 (MonthFromDay d + 1) @ ''-'' @
     pad0 2 (nat (DateFromDay d))"

definition iso_time :: "int \<Rightarrow> string" where
  "iso_time t =
     pad0 2 (nat (HourFromTime t)) @ '':'' @ pad0 2 (nat (MinFromTime t)) @ '':'' @
     pad0 2 (nat (SecFromTime t)) @ ''.'' @ pad0 3 (nat (msFromTime t))"

fun toISOString :: "js_date \<Rightarrow> js_error + string" where
  "toISOString (DateVal t) = Inr (iso_date (Day t) @ ''T'' @ iso_time t @ ''Z'')"
| "toISOString InvalidDate = Inl (RangeError ''Invalid time value'')"

text \<open>\<open>String.prototype.split\<close> with a one-character separator.\<close>

fun js_split :: "char \<Rightarrow> string \<Rightarrow> string list" where
  "js_split c [] = [[]]"
| "js_split c (x # xs) =
     (if x = c then [] # js_split c xs
      else (case js_split c xs of [] \<Rightarrow> [[x]] | w # ws \<Rightarrow> (x # w) # ws))"

text \<open>
  \<open>toDateString\<close>: weekday, month name, two-digit date and the year, of the local time
  \<open>t + LocalTZA(t)\<close>.  The offset of the device's time zone is the parameter
  \<open>tza\<close>.
\<close>

definition week_days :: "string list" where
  "week_days = [''Sun'', ''Mon'', ''Tue'', ''Wed'', ''Thu'', ''Fri'', ''Sat'']"

definition month_names :: "string list" where
  "month_names = [''Jan'', ''Feb'', ''Mar'', ''Apr'', ''May'', ''Jun'', ''Jul'', ''Aug'',
                  ''Sep'', ''Oct'', ''Nov'', ''Dec'']"

definition year_sign :: "int \<Rightarrow> string" where
  "year_sign y = (if 0 \<le> y then [] else ''-'')"

definition DateString :: "int \<Rightarrow> string" where
  "DateString t =
     (let d = Day t; y = YearFromDay d in
      week_days ! nat (WeekDay d) @ '' '' @ month_names ! MonthFromDay d @ '' '' @
      pad0 2 (nat (DateFromDay d)) @ '' '' @ year_sign y @ pad0 4 (nat \<bar>y\<bar>))"

fun toDateString :: "(int \<Rightarrow> int) \<Rightarrow> js_date \<Rightarrow> string" where
  "toDateString tza (DateVal t) = DateString (t + tza t)"
| "toDateString tza InvalidDate = ''Invalid Date''"

subsection \<open>The date part of the ISO string\<close>

lemma js_split_nonempty [simp]: "js_split c s \<noteq> []"
  by (induction s) (auto split: list.split)

lemma js_split_first: "c \<notin> set xs \<Longrightarrow> js_split c (xs @ c # ys) ! 0 = xs"
proof (induction xs)
  case Nil
  then show ?case by simp
next
  case (Cons x xs)
  then obtain w ws where "js_split c (xs @ c # ys) = w # ws"
    by (metis js_split_nonempty neq_Nil_conv)
  with Cons show ?case by auto
qed

lemma of_char_digit: "k < 10 \<Longrightarrow> of_char (digit_char k) = 48 + k"
  by (simp add: digit_char_def)

lemma pad0_digits: "set (pad0 w n) \<subseteq> digit_char ` {..<10}"
proof -
  have "CHR ''0'' \<in> digit_char ` {..<10}" by (rule image_eqI [where x = 0]) simp_all
  then show ?thesis using decimal_digits [of n] by (auto simp: pad0_def Let_def)
qed

lemma digit_char_not_T:
  assumes "k < 10" shows "digit_char k \<noteq> CHR ''T''"
proof
  assume "digit_char k = CHR ''T''"
  then have "of_char (digit_char k) = (of_char (CHR ''T'') :: nat)" by simp
  with of_char_digit [OF assms] have "48 + k = 84" by simp
  with assms show False by simp
qed

lemma T_notin_pad0: "CHR ''T'' \<notin> set (pad0 w n)"
proof
  assume "CHR ''T'' \<in> set (pad0 w n)"
  with pad0_digits [of w n] have "CHR ''T'' \<in> digit_char ` {..<10}" by (rule subsetD)
  then obtain k where k: "k < 10" and eq: "CHR ''T'' = digit_char k" by (auto simp del: lessThan_iff)
  from digit_char_not_T [OF k] eq show False by simp
qed

lemma T_notin_iso_date: "CHR ''T'' \<notin> set (iso_date d)"
  by (simp add: iso_date_def iso_year_def T_notin_pad0)

text \<open>\<open>toISOString().split('T')[0]\<close> of a date is the ISO calendar date of its UTC day.\<close>

lemma iso_split_date: "js_split (CHR ''T'') (iso_date d @ CHR ''T'' # rest) ! 0 = iso_date d"
  using js_split_first [OF T_notin_iso_date] by simp

end
