(* ===== verification/RegisterScreen.thy ===== *)
theory RegisterScreen
  imports Firebase_Api JsDate
begin

text \<open>
  The registration screen, \<open>src/screens/RegisterScreen.js\<close>: thirteen pieces of React
  state (the draft of the profile, the date-picker flag, the picked image and the
  visible error), the submission handler \<open>handleRegister\<close> (a local password check,
  then account creation, the optional upload of the image, the profile write, a
  confirmation and the navigation to Login, all in one \<open>try\<close> block), the date
  handler \<open>onChangeDate\<close>, the image handler \<open>pickImage\<close>, and the view that binds
  each control to its handler.
\<close>

subsection \<open>State\<close>

text \<open>The three values of the document-type \<open>Picker\<close>; the state holds the item's value.\<close>

datatype doc_type = DNI | PASAPORTE | RUC

fun doc_type_value :: "doc_type \<Rightarrow> string" where
  "doc_type_value DNI = ''DNI''"
| "doc_type_value PASAPORTE = ''PASAPORTE''"
| "doc_type_value RUC = ''RUC''"

record reg_state =
  email :: string
  password :: string
  confirmPassword :: string
  username :: string
  fullName :: string
  docType :: doc_type
  docNumber :: string
  age :: string
  birthDate :: js_date
  showDatePicker :: bool
  address :: string
  imageUri :: js_str
  error :: string

text \<open>The state at mount; \<open>new Date()\<close> reads the clock \<open>now\<close>.\<close>

definition reg_init :: "int \<Rightarrow> reg_state" where
  "reg_init now =
     \<lparr>email = [], password = [], confirmPassword = [], username = [], fullName = [],
      docType = DNI, docNumber = [], age = [], birthDate = TimeClip now,
      showDatePicker = False, address = [], imageUri = None, error = []\<rparr>"

subsection \<open>\<open>handleRegister\<close>\<close>

text \<open>The storage path of the profile image, \<open>usuarios/${user.uid}/profile.jpg\<close>.\<close>

definition profile_path :: "string \<Rightarrow> string" where
  "profile_path u = ''usuarios/'' @ u @ ''/profile.jpg''"

text \<open>\<open>birthDate.toISOString().split('T')[0]\<close>; \<open>toISOString\<close> may throw.\<close>

definition birth_date_field :: "js_date \<Rightarrow> js_error + string" where
  "birth_date_field d =
     (case toISOString d of Inl e \<Rightarrow> Inl e | Inr s \<Rightarrow> Inr (js_split (CHR ''T'') s ! 0))"

text \<open>The object literal written with \<open>setDoc\<close>, field by field in the source's order.\<close>

definition profile_doc :: "reg_state \<Rightarrow> string \<Rightarrow> string \<Rightarrow> doc_data" where
  "profile_doc s bd photoURL =
     [(''email'', email s), (''username'', username s), (''fullName'', fullName s),
      (''docType'', doc_type_value (docType s)), (''docNumber'', docNumber s), (''age'', age s),
      (''birthDate'', bd), (''address'', address s), (''photoURL'', photoURL)]"

text \<open>
  \<open>let photoURL = ''; if (imageUri) { ... }\<close>: fetch the picked file, read it as a
  blob, upload it under the user's path and resolve its download URL.
\<close>

definition upload_photo :: "'w backend \<Rightarrow> string \<Rightarrow> js_str \<Rightarrow> ('w, string) act" where
  "upload_photo B u img =
     (case img of
        None \<Rightarrow> ret []
      | Some uri \<Rightarrow>
          if truthy_str uri then
            bindE (fetch B uri) (\<lambda>response.
            bindE (blob_of B response) (\<lambda>blob.
            bindE (uploadBytes B (profile_path u) blob) (\<lambda>_.
            getDownloadURL B (profile_path u))))
          else ret [])"

definition reg_success_title :: string where
  "reg_success_title = ''Registration Successful''"

definition reg_success_msg :: string where
  "reg_success_msg = ''You have registered successfully!''"

text \<open>The body of the \<open>try\<close> block, lines 32 to 60.\<close>

definition register_try :: "'w backend \<Rightarrow> reg_state \<Rightarrow> ('w, unit) act" where
  "register_try B s =
     bindE (createUserWithEmailAndPassword B (email s) (password s)) (\<lambda>user.
     bindE (upload_photo B (uid user) (imageUri s)) (\<lambda>photoURL.
     bindE (lift_sum (birth_date_field (birthDate s))) (\<lambda>bd.
     bindE (setDoc B ''users'' (uid user) (profile_doc s bd photoURL)) (\<lambda>_.
     bindE (emit (Alert reg_success_title reg_success_msg)) (\<lambda>_.
     emit (Navigate Login))))))"

definition mismatch_msg :: string where
  "mismatch_msg = ''Passwords do not match''"

text \<open>
  The handler as an action whose value is the argument of \<open>setError\<close>, if it is
  called: the early return on a mismatch, nothing after a completed \<open>try\<close>, the
  exception's message after the \<open>catch\<close> has logged it.
\<close>

definition handleRegister_act :: "'w backend \<Rightarrow> reg_state \<Rightarrow> ('w, string option) act" where
  "handleRegister_act B s =
     (if password s \<noteq> confirmPassword s then ret (Some mismatch_msg)
      else try_catch (bindE (register_try B s) (\<lambda>_. ret None))
             (\<lambda>error. bindE (emit (ConsoleLog error)) (\<lambda>_. ret (Some (js_message error)))))"

definition set_error :: "js_error + string option \<Rightarrow> reg_state \<Rightarrow> reg_state" where
  "set_error r s = (case r of Inr (Some m) \<Rightarrow> s\<lparr>error := m\<rparr> | _ \<Rightarrow> s)"

definition handleRegister :: "'w backend \<Rightarrow> reg_state \<times> 'w io \<Rightarrow> reg_state \<times> 'w io" where
  "handleRegister B c =
     (case c of (s, \<sigma>) \<Rightarrow> case handleRegister_act B s \<sigma> of (r, \<sigma>') \<Rightarrow> (set_error r s, \<sigma>'))"

subsection \<open>\<open>onChangeDate\<close> and \<open>pickImage\<close>\<close>

text \<open>
  The picker calls \<open>onChange(event, selectedDate)\<close>; \<open>selectedDate\<close> is
  \<open>undefined\<close> when the dialog is dismissed, and a \<open>Date\<close> object, always truthy,
  otherwise.
\<close>

definition onChangeDate :: "js_date option \<Rightarrow> reg_state \<Rightarrow> reg_state" where
  "onChangeDate selectedDate s =
     (let currentDate = (case selectedDate of Some d \<Rightarrow> d | None \<Rightarrow> birthDate s)
      in s\<lparr>showDatePicker := False, birthDate := currentDate\<rparr>)"

text \<open>
  The options passed to \<open>ImagePicker.launchImageLibraryAsync\<close>, and its result:
  \<open>canceled\<close>, or the list of picked assets' URIs.
\<close>

record picker_options =
  media_images_only :: bool
  allows_editing :: bool
  aspect :: "nat \<times> nat"
  quality :: nat

definition image_options :: picker_options where
  "image_options = \<lparr>media_images_only = True, allows_editing = True, aspect = (1, 1), quality = 1\<rparr>"

datatype picker_result = Canceled | Picked "string list"

text \<open>
  \<open>pickImage\<close> has no \<open>catch\<close>: a rejection of the picker, or \<open>result.assets[0]\<close>
  on an empty list, rejects the handler's promise and leaves the state as it was.
\<close>

definition asset_error :: js_error where
  "asset_error = TypeError ''Cannot read property uri of undefined''"

definition pickImage :: "js_error + picker_result \<Rightarrow> reg_state \<Rightarrow> js_error + reg_state" where
  "pickImage result s =
     (case result of
        Inl e \<Rightarrow> Inl e
      | Inr Canceled \<Rightarrow> Inr s
      | Inr (Picked assets) \<Rightarrow>
          (case assets of [] \<Rightarrow> Inl asset_error | a # _ \<Rightarrow> Inr (s\<lparr>imageUri := Some a\<rparr>)))"

subsection \<open>Behaviour of \<open>handleRegister\<close>\<close>

lemmas reg_defs = handleRegister_def handleRegister_act_def register_try_def set_error_def sdk_defs

text \<open>The image step when no image was picked, and when every call of it resolves.\<close>

lemma upload_photo_none:
  "\<not> truthy_opt img \<Longrightarrow> upload_photo B u img \<sigma> = (Inr [], \<sigma>)"
  by (cases img) (simp_all add: upload_photo_def act_simps)

lemma upload_photo_ok:
  assumes "uri \<noteq> []"
    and "fetch_uri B w uri = (Inr r, w1)" and "response_blob B w1 r = (Inr b, w2)"
    and "upload_bytes B w2 (profile_path u) b = (Inr (), w3)"
    and "get_download_url B w3 (profile_path u) = (Inr url, w4)"
  shows "upload_photo B u (Some uri) (w, effs) =
    (Inr url, (w4, effs @ [Call (Fetch uri), Call ReadBlob, Call (UploadBytes (profile_path u) b),
                           Call (GetDownloadURL (profile_path u))]))"
  using assms by (simp add: upload_photo_def sdk_defs act_simps)

text \<open>Whatever its calls return, the image step writes no document and does not navigate.\<close>

lemma upload_photo_appends:
  "\<exists>new. snd (snd (upload_photo B u img (w, effs))) = effs @ new \<and>
         (\<forall>c k d. SetDoc c k d \<notin> set (requests new)) \<and> navigations new = []"
  by (auto simp: upload_photo_def sdk_defs act_simps split: option.splits prod.splits sum.splits)

text \<open>
  C1: When the password and its confirmation differ, \<open>handleRegister\<close> sets the error
  to \<open>Passwords do not match\<close> and makes no backend call: world and effects are unchanged.
\<close>

theorem handleRegister_mismatch:
  assumes "password s \<noteq> confirmPassword s"
  shows "handleRegister B (s, \<sigma>) = (s\<lparr>error := ''Passwords do not match''\<rparr>, \<sigma>)"
  using assms by (simp add: reg_defs act_simps mismatch_msg_def)

text \<open>
  C2: With matching passwords, no image picked and every call resolving, the run is exactly:
  create the account, write the profile under the new uid with an empty \<open>photoURL\<close>
  (no upload request), show the success alert, navigate to Login; the error is untouched.
\<close>

theorem handleRegister_no_image:
  assumes "password s = confirmPassword s" and "\<not> truthy_opt (imageUri s)"
    and "create_user B w (email s) (password s) = (Inr user, w1)"
    and "birth_date_field (birthDate s) = Inr bd"
    and "set_doc B w1 ''users'' (uid user) (profile_doc s bd []) = (Inr (), w2)"
  shows "handleRegister B (s, (w, effs)) =
    (s, (w2, effs @ [Call (CreateUser (email s) (password s)),
                     Call (SetDoc ''users'' (uid user) (profile_doc s bd [])),
                     Alert reg_success_title reg_success_msg, Navigate Login]))"
  using assms by (simp add: reg_defs act_simps upload_photo_none)

text \<open>
  C3: With an image picked and every call resolving, the image is fetched, uploaded to
  \<open>usuarios/<uid>/profile.jpg\<close> of the new account, and the profile stores the URL that
  \<open>getDownloadURL\<close> returned; then the alert and the navigation to Login.
\<close>

theorem handleRegister_with_image:
  assumes "password s = confirmPassword s" and "imageUri s = Some uri" and "uri \<noteq> []"
    and "create_user B w (email s) (password s) = (Inr user, w1)"
    and "fetch_uri B w1 uri = (Inr r, w2)" and "response_blob B w2 r = (Inr b, w3)"
    and "upload_bytes B w3 (profile_path (uid user)) b = (Inr (), w4)"
    and "get_download_url B w4 (profile_path (uid user)) = (Inr url, w5)"
    and "birth_date_field (birthDate s) = Inr bd"
    and "set_doc B w5 ''users'' (uid user) (profile_doc s bd url) = (Inr (), w6)"
  shows "handleRegister B (s, (w, effs)) =
    (s, (w6, effs @ [Call (CreateUser (email s) (password s)), Call (Fetch uri), Call ReadBlob,
                     Call (UploadBytes (profile_path (uid user)) b),
                     Call (GetDownloadURL (profile_path (uid user))),
                     Call (SetDoc ''users'' (uid user) (profile_doc s bd url)),
                     Alert reg_success_title reg_success_msg, Navigate Login]))"
proof -
  have "upload_photo B (uid user) (imageUri s) (w1, effs @ [Call (CreateUser (email s) (password s))]) =
    (Inr url, (w5, effs @ [Call (CreateUser (email s) (password s)), Call (Fetch uri), Call ReadBlob,
       Call (UploadBytes (profile_path (uid user)) b), Call (GetDownloadURL (profile_path (uid user)))]))"
    using assms(2,3,5-8) by (simp add: upload_photo_ok)
  then show ?thesis using assms(1,4,9,10) by (simp add: reg_defs act_simps)
qed

text \<open>
  C4: When the account is created but the profile write rejects, the error shows the
  rejection's message, the error is logged, there is no alert and no navigation, and the
  account stays created: the account-creation request was made and nothing undoes it.
\<close>

theorem handleRegister_setDoc_fails:
  assumes "password s = confirmPassword s" and "\<not> truthy_opt (imageUri s)"
    and "create_user B w (email s) (password s) = (Inr user, w1)"
    and "birth_date_field (birthDate s) = Inr bd"
    and "set_doc B w1 ''users'' (uid user) (profile_doc s bd []) = (Inl e, w2)"
  shows "handleRegister B (s, (w, effs)) =
    (s\<lparr>error := js_message e\<rparr>, (w2, effs @ [Call (CreateUser (email s) (password s)),
                     Call (SetDoc ''users'' (uid user) (profile_doc s bd [])), ConsoleLog e]))"
  using assms by (simp add: reg_defs act_simps upload_photo_none)

text \<open>
  C5: When the account is created and any step of the image upload rejects, the error shows
  that message, no profile document is written and there is no navigation; the world is
  the one the failed step left, with the account in it.
\<close>

theorem handleRegister_upload_fails:
  assumes "password s = confirmPassword s"
    and "create_user B w (email s) (password s) = (Inr user, w1)"
    and "upload_photo B (uid user) (imageUri s) (w1, effs @ [Call (CreateUser (email s) (password s))])
           = (Inl e, (w2, effs2))"
  shows "handleRegister B (s, (w, effs)) = (s\<lparr>error := js_message e\<rparr>, (w2, effs2 @ [ConsoleLog e])) \<and>
         (\<exists>new. effs2 = effs @ Call (CreateUser (email s) (password s)) # new \<and>
                (\<forall>c k d. SetDoc c k d \<notin> set (requests new)) \<and> navigations new = [])"
proof
  show "handleRegister B (s, (w, effs)) = (s\<lparr>error := js_message e\<rparr>, (w2, effs2 @ [ConsoleLog e]))"
    using assms by (simp add: reg_defs act_simps)
  from upload_photo_appends [of B "uid user" "imageUri s" w1 "effs @ [Call (CreateUser (email s) (password s))]"]
  show "\<exists>new. effs2 = effs @ Call (CreateUser (email s) (password s)) # new \<and>
          (\<forall>c k d. SetDoc c k d \<notin> set (requests new)) \<and> navigations new = []"
    using assms(3) by simp
qed

text \<open>
  C6: When account creation rejects, the error shows the rejection's message and nothing
  else is requested: no upload, no profile write, no navigation.
\<close>

theorem handleRegister_create_fails:
  assumes "password s = confirmPassword s"
    and "create_user B w (email s) (password s) = (Inl e, w1)"
  shows "handleRegister B (s, (w, effs)) =
    (s\<lparr>error := js_message e\<rparr>, (w1, effs @ [Call (CreateUser (email s) (password s)), ConsoleLog e]))"
  using assms by (simp add: reg_defs act_simps)

text \<open>The fields of the profile document, in the order of the object literal (lines 48 to 56).\<close>

definition profile_fields :: "string list" where
  "profile_fields = [''email'', ''username'', ''fullName'', ''docType'', ''docNumber'', ''age'',
     ''birthDate'', ''address'', ''photoURL'']"

lemma profile_doc_fields: "map fst (profile_doc s bd url) = profile_fields"
  by (simp add: profile_doc_def profile_fields_def)

lemma upload_photo_no_setdoc:
  "upload_photo B u img (w, effs) = (r, (w', effs')) \<Longrightarrow>
   \<exists>new. effs' = effs @ new \<and> (\<forall>c k d. Call (SetDoc c k d) \<notin> set new)"
  using upload_photo_appends [of B u img w effs] by (auto, blast dest: requests_mem)

text \<open>
  C19: Every document a run of \<open>handleRegister\<close> writes, whatever the backend answers,
  is a profile of the draft: in collection \<open>users\<close>, keyed by the uid of the account
  this run created, with the nine profile fields in the source's order.
\<close>

theorem handleRegister_writes_profile:
  assumes "handleRegister B (s, (w, effs)) = (s', (w', effs'))"
    and "Call (SetDoc c k d) \<in> set (drop (length effs) effs')"
  shows "c = ''users'' \<and> (\<exists>u w1. create_user B w (email s) (password s) = (Inr u, w1) \<and> k = uid u) \<and>
         (\<exists>bd url. d = profile_doc s bd url) \<and> map fst d = profile_fields"
  using assms
  by (auto simp: reg_defs act_simps profile_doc_fields dest!: upload_photo_no_setdoc
      split: sum.splits prod.splits if_splits) (metis prod.collapse)+

subsection \<open>The view and its events\<close>

text \<open>
  The rendered controls, in the order of the JSX: the title, the error text when
  \<open>error\<close> is truthy, the image picker (the image when \<open>imageUri\<close> is truthy, the
  label otherwise), the five text fields, the document-type picker, two more fields, the
  date button, the date picker while \<open>showDatePicker\<close> holds, the selected-date text,
  the address field and the submit button.
\<close>

datatype reg_widget =
    TitleText string
  | ErrorText string
  | ImagePickerW js_str
  | Field string string bool
  | DocTypePicker doc_type
  | DateButton
  | DatePickerW js_date
  | DateText string
  | SubmitButton

definition reg_view :: "(int \<Rightarrow> int) \<Rightarrow> reg_state \<Rightarrow> reg_widget list" where
  "reg_view tza s =
     [TitleText ''Register''] @
     (if truthy_str (error s) then [ErrorText (error s)] else []) @
     [ImagePickerW (if truthy_opt (imageUri s) then imageUri s else None),
      Field ''Email'' (email s) False, Field ''Password'' (password s) True,
      Field ''Confirm Password'' (confirmPassword s) True, Field ''Username'' (username s) False,
      Field ''Full Name'' (fullName s) False, DocTypePicker (docType s),
      Field ''Document Number'' (docNumber s) False, Field ''Age'' (age s) False, DateButton] @
     (if showDatePicker s then [DatePickerW (birthDate s)] else []) @
     [DateText (''Selected Date: '' @ toDateString tza (birthDate s)),
      Field ''Address'' (address s) False, SubmitButton]"

text \<open>
  One event per control's callback.  The image press carries the picker's outcome (the
  awaited \<open>launchImageLibraryAsync\<close>), the date change the \<open>selectedDate\<close>.
\<close>

datatype reg_event =
    PickImagePress "js_error + picker_result"
  | EmailText string | PasswordText string | ConfirmText string
  | UsernameText string | FullNameText string | DocTypeValue doc_type
  | DocNumberText string | AgeText string
  | DateButtonPress | DateChange "js_date option"
  | AddressText string | RegisterPress

text \<open>A control's callback can fire only while the control is rendered.\<close>

fun reg_enabled :: "(int \<Rightarrow> int) \<Rightarrow> reg_state \<Rightarrow> reg_event \<Rightarrow> bool" where
  "reg_enabled tza s (DateChange _) \<longleftrightarrow> DatePickerW (birthDate s) \<in> set (reg_view tza s)"
| "reg_enabled tza s _ \<longleftrightarrow> True"

fun reg_step :: "'w backend \<Rightarrow> reg_state \<times> 'w io \<Rightarrow> reg_event \<Rightarrow> reg_state \<times> 'w io" where
  "reg_step B (s, \<sigma>) (PickImagePress r) = (case pickImage r s of Inl _ \<Rightarrow> s | Inr s' \<Rightarrow> s', \<sigma>)"
| "reg_step B (s, \<sigma>) (EmailText t) = (s\<lparr>email := t\<rparr>, \<sigma>)"
| "reg_step B (s, \<sigma>) (PasswordText t) = (s\<lparr>password := t\<rparr>, \<sigma>)"
| "reg_step B (s, \<sigma>) (ConfirmText t) = (s\<lparr>confirmPassword := t\<rparr>, \<sigma>)"
| "reg_step B (s, \<sigma>) (UsernameText t) = (s\<lparr>username := t\<rparr>, \<sigma>)"
| "reg_step B (s, \<sigma>) (FullNameText t) = (s\<lparr>fullName := t\<rparr>, \<sigma>)"
| "reg_step B (s, \<sigma>) (DocTypeValue v) = (s\<lparr>docType := v\<rparr>, \<sigma>)"
| "reg_step B (s, \<sigma>) (DocNumberText t) = (s\<lparr>docNumber := t\<rparr>, \<sigma>)"
| "reg_step B (s, \<sigma>) (AgeText t) = (s\<lparr>age := t\<rparr>, \<sigma>)"
| "reg_step B (s, \<sigma>) DateButtonPress = (s\<lparr>showDatePicker := True\<rparr>, \<sigma>)"
| "reg_step B (s, \<sigma>) (DateChange d) = (onChangeDate d s, \<sigma>)"
| "reg_step B (s, \<sigma>) (AddressText t) = (s\<lparr>address := t\<rparr>, \<sigma>)"
| "reg_step B (s, \<sigma>) RegisterPress = handleRegister B (s, \<sigma>)"

text \<open>A sequence of events, each handled to completion before the next.\<close>

fun reg_run :: "'w backend \<Rightarrow> reg_state \<times> 'w io \<Rightarrow> reg_event list \<Rightarrow> reg_state \<times> 'w io" where
  "reg_run B c [] = c"
| "reg_run B c (ev # evs) = reg_run B (reg_step B c ev) evs"

text \<open>The platform's date picker delivers valid dates.\<close>

fun platform_ok :: "reg_event \<Rightarrow> bool" where
  "platform_ok (DateChange (Some d)) \<longleftrightarrow> valid_date d"
| "platform_ok _ \<longleftrightarrow> True"

inductive reg_reachable :: "'w backend \<Rightarrow> (int \<Rightarrow> int) \<Rightarrow> int \<Rightarrow> reg_state \<times> 'w io \<Rightarrow> bool"
  for B tza now where
  mount: "reg_reachable B tza now (reg_init now, \<sigma>)"
| step: "reg_reachable B tza now c \<Longrightarrow> reg_enabled tza (fst c) ev \<Longrightarrow> platform_ok ev \<Longrightarrow>
         reg_reachable B tza now (reg_step B c ev)"

subsection \<open>The birth date stays valid\<close>

lemma handleRegister_birthDate: "birthDate (fst (handleRegister B c)) = birthDate (fst c)"
  by (simp add: handleRegister_def set_error_def split: prod.split sum.split option.split)

lemma pickImage_birthDate: "pickImage r s = Inr s' \<Longrightarrow> birthDate s' = birthDate s"
  by (auto simp: pickImage_def split: sum.splits picker_result.splits list.splits)

lemma reg_step_birthDate:
  assumes "valid_date (birthDate (fst c))" and "platform_ok ev"
  shows "valid_date (birthDate (fst (reg_step B c ev)))"
proof -
  obtain s \<sigma> where c: "c = (s, \<sigma>)" by (cases c)
  with assms show ?thesis
    by (cases ev) (auto simp: onChangeDate_def handleRegister_birthDate pickImage_birthDate
        split: sum.split option.splits)
qed

lemma birth_date_field_DateVal: "birth_date_field (DateVal t) = Inr (iso_date (Day t))"
  by (simp add: birth_date_field_def iso_split_date)

lemma reg_reachable_valid_date:
  assumes "\<bar>now\<bar> \<le> maxTime" and "reg_reachable B tza now c"
  shows "valid_date (birthDate (fst c))"
  using assms(2)
proof (induction rule: reg_reachable.induct)
  case (mount \<sigma>)
  show ?case using assms(1) by (simp add: reg_init_def TimeClip_def)
next
  case (step c ev)
  then show ?case by (simp add: reg_step_birthDate)
qed

text \<open>
  C9: In every state the screen can reach from its mount (with the clock inside the
  range of time values, and the picker delivering valid dates), \<open>birthDate\<close> is a
  valid date, and the birth-date field of the profile is the ISO calendar date of its UTC
  day: the \<open>RangeError\<close> of \<open>toISOString\<close> cannot reach the \<open>catch\<close>.
\<close>

theorem reachable_birthDate_valid:
  assumes "\<bar>now\<bar> \<le> maxTime" and "reg_reachable B tza now c"
  shows "\<exists>t. birthDate (fst c) = DateVal t \<and> \<bar>t\<bar> \<le> maxTime \<and>
             birth_date_field (birthDate (fst c)) = Inr (iso_date (Day t))"
proof -
  obtain t where "birthDate (fst c) = DateVal t" "\<bar>t\<bar> \<le> maxTime"
    using reg_reachable_valid_date [OF assms] by (cases "birthDate (fst c)") auto
  then show ?thesis by (simp add: birth_date_field_DateVal)
qed

subsection \<open>Events other than submission\<close>

text \<open>
  C15: Every event of the screen other than the Register press (typing, the pickers, the
  image library) changes only the screen's state: it makes no backend call and emits no
  effect; picking an image in particular uploads nothing until submission.
\<close>

theorem reg_step_frame:
  assumes "ev \<noteq> RegisterPress"
  shows "snd (reg_step B c ev) = snd c"
proof -
  obtain s \<sigma> where c: "c = (s, \<sigma>)" by (cases c)
  with assms show ?thesis by (cases ev) (simp_all split: sum.split)
qed

text \<open>
  C16: After the date picker reports, it is no longer rendered; a dismissal (no
  \<open>selectedDate\<close>) keeps the birth date, a selection replaces it.
\<close>

theorem date_change_closes_picker:
  "(\<forall>d. DatePickerW d \<notin> set (reg_view tza (fst (reg_step B c (DateChange sel))))) \<and>
   birthDate (fst (reg_step B c (DateChange sel))) = (case sel of None \<Rightarrow> birthDate (fst c) | Some d \<Rightarrow> d)"
proof -
  obtain s \<sigma> where c: "c = (s, \<sigma>)" by (cases c)
  then show ?thesis by (cases sel) (simp_all add: reg_view_def onChangeDate_def)
qed

text \<open>
  C17: A failed image pick is silent: when the library picker rejects, or returns no asset,
  the handler's promise rejects outside any \<open>catch\<close>; the draft, the visible error and
  the backend are all unchanged.
\<close>

theorem pick_image_failure_silent:
  "reg_step B (s, \<sigma>) (PickImagePress (Inl e)) = (s, \<sigma>) \<and>
   reg_step B (s, \<sigma>) (PickImagePress (Inr (Picked []))) = (s, \<sigma>) \<and>
   pickImage (Inr (Picked [])) s = Inl asset_error"
  by (simp add: pickImage_def)

end
