(* ===== verification/FavoritesScreen.thy ===== *)
theory FavoritesScreen
  imports Prelude
begin

text \<open>
  The favorites screen, \<open>src/screens/Favorites.js\<close>: a title and one button whose
  \<open>onPress\<close> is an empty function.  It has no state and makes no call; its one event
  leaves the world and the effects as they were.
\<close>

datatype fav_widget = FavTitle string | FavButton string

definition favorites_view :: "fav_widget list" where
  "favorites_view = [FavTitle ''Favorites Screen'', FavButton ''View Favorite Items'']"

text \<open>\<open>onPress={() => {}}\<close>: the handler runs and does nothing.\<close>

definition view_favorites_press :: "'w io \<Rightarrow> 'w io" where
  "view_favorites_press \<sigma> = \<sigma>"

end
