(* ===== verification/Firebase.thy ===== *)
theory Firebase
  imports Firebase_Api
begin

text \<open>
  A concrete backend: an in-memory model of the three Firebase services the screens call
  (Authentication, Cloud Firestore, Cloud Storage) and of the device's local files that
  \<open>fetch(imageUri)\<close> reads.  It is the environment of the screens, not code of this
  repository, and follows the SDK's documented behaviour in the parts the screens
  depend on: accounts keyed by email with a fresh uid each, \<open>auth/email-already-in-use\<close>,
  \<open>auth/weak-password\<close> (fewer than six characters), \<open>auth/invalid-email\<close>,
  \<open>auth/invalid-credential\<close>; sign-in and account creation both make the user the
  current user; storage and documents require a signed-in user; \<open>setDoc\<close> overwrites.
  Any operation can also fail for reasons outside the app (network, quota, rules): the
  set \<open>faults\<close> names the operations that reject in the current world.
\<close>

datatype fb_op = OpSignIn | OpCreateUser | OpFetch | OpReadBlob | OpUpload | OpDownloadURL | OpSetDoc

record fb_account =
  acc_uid :: string
  acc_password :: string

record fb_world =
  accounts :: "string \<rightharpoonup> fb_account"
  next_uid :: nat
  current_user :: "string option"
  docs :: "string \<times> string \<rightharpoonup> doc_data"
  device_files :: "string \<rightharpoonup> blob"
  bucket :: "string \<rightharpoonup> blob"
  faults :: "fb_op set"

definition fb_error :: "string \<Rightarrow> js_error" where
  "fb_error code = FirebaseError code (''Firebase: Error ('' @ code @ '').'')"

definition uid_of :: "nat \<Rightarrow> string" where
  "uid_of n = ''uid'' @ decimal n"

definition valid_email :: "string \<Rightarrow> bool" where
  "valid_email e \<longleftrightarrow> CHR ''@'' \<in> set e"

definition download_url :: "string \<Rightarrow> string" where
  "download_url path = ''https://firebasestorage.googleapis.com/'' @ path"

definition fb_sign_in :: "fb_world \<Rightarrow> js_str \<Rightarrow> js_str \<Rightarrow> (js_error + fb_user) \<times> fb_world" where
  "fb_sign_in w e p =
     (if OpSignIn \<in> faults w then (Inl (fb_error ''auth/network-request-failed''), w)
      else case (e, p) of
        (Some e', Some p') \<Rightarrow>
          (case accounts w e' of
             Some a \<Rightarrow>
               if acc_password a = p'
               then (Inr \<lparr>uid = acc_uid a, user_email = e'\<rparr>, w\<lparr>current_user := Some (acc_uid a)\<rparr>)
               else (Inl (fb_error ''auth/invalid-credential''), w)
           | None \<Rightarrow> (Inl (fb_error ''auth/invalid-credential''), w))
      | _ \<Rightarrow> (Inl (fb_error ''auth/invalid-email''), w))"

definition fb_create_user :: "fb_world \<Rightarrow> string \<Rightarrow> string \<Rightarrow> (js_error + fb_user) \<times> fb_world" where
  "fb_create_user w e p =
     (if OpCreateUser \<in> faults w then (Inl (fb_error ''auth/network-request-failed''), w)
      else if \<not> valid_email e then (Inl (fb_error ''auth/invalid-email''), w)
      else if length p < 6 then (Inl (fb_error ''auth/weak-password''), w)
      else if accounts w e \<noteq> None then (Inl (fb_error ''auth/email-already-in-use''), w)
      else
        (let u = uid_of (next_uid w) in
         (Inr \<lparr>uid = u, user_email = e\<rparr>,
          w\<lparr>accounts := (accounts w)(e \<mapsto> \<lparr>acc_uid = u, acc_password = p\<rparr>),
            next_uid := Suc (next_uid w), current_user := Some u\<rparr>)))"

definition fb_fetch :: "fb_world \<Rightarrow> string \<Rightarrow> (js_error + blob) \<times> fb_world" where
  "fb_fetch w uri =
     (if OpFetch \<in> faults w then (Inl (TypeError ''Network request failed''), w)
      else case device_files w uri of
        Some b \<Rightarrow> (Inr b, w)
      | None \<Rightarrow> (Inl (TypeError ''Network request failed''), w))"

definition fb_read_blob :: "fb_world \<Rightarrow> blob \<Rightarrow> (js_error + blob) \<times> fb_world" where
  "fb_read_blob w r =
     (if OpReadBlob \<in> faults w then (Inl (TypeError ''Failed to read the response body''), w)
      else (Inr r, w))"

definition fb_upload :: "fb_world \<Rightarrow> string \<Rightarrow> blob \<Rightarrow> (js_error + unit) \<times> fb_world" where
  "fb_upload w path b =
     (if OpUpload \<in> faults w then (Inl (fb_error ''storage/unknown''), w)
      else if current_user w = None then (Inl (fb_error ''storage/unauthorized''), w)
      else (Inr (), w\<lparr>bucket := (bucket w)(path \<mapsto> b)\<rparr>))"

definition fb_download_url :: "fb_world \<Rightarrow> string \<Rightarrow> (js_error + string) \<times> fb_world" where
  "fb_download_url w path =
     (if OpDownloadURL \<in> faults w then (Inl (fb_error ''storage/unknown''), w)
      else if bucket w path = None then (Inl (fb_error ''storage/object-not-found''), w)
      else (Inr (download_url path), w))"

definition fb_set_doc :: "fb_world \<Rightarrow> string \<Rightarrow> string \<Rightarrow> doc_data \<Rightarrow> (js_error + unit) \<times> fb_world" where
  "fb_set_doc w coll key d =
     (if OpSetDoc \<in> faults w \<or> current_user w = None
      then (Inl (fb_error ''permission-denied''), w)
      else (Inr (), w\<lparr>docs := (docs w)((coll, key) \<mapsto> d)\<rparr>))"

definition firebase :: "fb_world backend" where
  "firebase =
     \<lparr>sign_in = fb_sign_in, create_user = fb_create_user, fetch_uri = fb_fetch,
      response_blob = fb_read_blob, upload_bytes = fb_upload,
      get_download_url = fb_download_url, set_doc = fb_set_doc\<rparr>"

lemmas fb_defs = fb_sign_in_def fb_create_user_def fb_fetch_def fb_read_blob_def fb_upload_def
  fb_download_url_def fb_set_doc_def

lemma firebase_ops [simp]:
  "sign_in firebase = fb_sign_in" "create_user firebase = fb_create_user"
  "fetch_uri firebase = fb_fetch" "response_blob firebase = fb_read_blob"
  "upload_bytes firebase = fb_upload" "get_download_url firebase = fb_download_url"
  "set_doc firebase = fb_set_doc"
  by (simp_all add: firebase_def)

subsection \<open>Generated uids\<close>

lemma uid_of_inj [simp]: "uid_of m = uid_of n \<longleftrightarrow> m = n"
  by (simp add: uid_of_def)

end
