(* ===== verification/RegisterRace.thy ===== *)
theory RegisterRace
  imports RegisterScreen Firebase
begin

text \<open>
  \<open>handleRegister\<close> (\<open>src/screens/RegisterScreen.js\<close>, lines 26 to 65) as a resumable
  process, and two of its invocations interleaved.  Each \<open>await\<close> of the handler
  (\<open>createUserWithEmailAndPassword\<close> line 33, \<open>fetch\<close> 39, \<open>blob\<close> 40,
  \<open>uploadBytes\<close> 42, \<open>getDownloadURL\<close> 43, \<open>setDoc\<close> 47) is a point where the
  JavaScript event loop may run other code; \<open>reg_pc\<close> names these points with the
  values computed so far, and \<open>reg_resume\<close> runs the handler from one point to the next
  inside the same \<open>try\<close>/\<open>catch\<close>.

  The submit button has no guard against a second press while the first is pending
  (spec, section 5).  Two presses in the same render start two invocations over the same
  draft (the closure's state); \<open>race_reach\<close> is every interleaving of their segments,
  each \<open>setError\<close> applied to the live screen state when its invocation ends.
\<close>

subsection \<open>Resumable segments of \<open>handleRegister\<close>\<close>

text \<open>
  Where a suspended invocation stands: before its first line, or after an \<open>await\<close>
  with the values it has bound (\<open>user\<close>, \<open>response\<close>, \<open>blob\<close>, \<open>photoURL\<close>), or
  ended with the argument of \<open>setError\<close> if it calls it.
\<close>

datatype reg_pc =
    PcStart
  | PcCreated fb_user
  | PcFetched fb_user blob
  | PcRead fb_user blob
  | PcUploaded fb_user
  | PcUrl fb_user string
  | PcEnd "string option"

text \<open>The \<open>catch\<close> block, lines 61 to 64, ending the invocation with \<open>setError(error.message)\<close>.\<close>

definition reg_catch :: "js_error \<Rightarrow> ('w, reg_pc) act" where
  "reg_catch e = bindE (emit (ConsoleLog e)) (\<lambda>_. ret (PcEnd (Some (js_message e))))"

text \<open>Lines 46 to 59: the profile write and, once it resolves, the alert and the navigation.\<close>

definition store_profile :: "'w backend \<Rightarrow> reg_state \<Rightarrow> fb_user \<Rightarrow> string \<Rightarrow> ('w, reg_pc) act" where
  "store_profile B s user photoURL =
     bindE (lift_sum (birth_date_field (birthDate s))) (\<lambda>bd.
     bindE (setDoc B ''users'' (uid user) (profile_doc s bd photoURL)) (\<lambda>_.
     bindE (emit (Alert reg_success_title reg_success_msg)) (\<lambda>_.
     bindE (emit (Navigate Login)) (\<lambda>_. ret (PcEnd None)))))"

text \<open>
  One segment: from a suspension point, run to the next \<open>await\<close> and through it.  The
  mismatch guard runs synchronously before the first one; every segment of the
  \<open>try\<close> block keeps its \<open>catch\<close>.
\<close>

fun reg_resume :: "'w backend \<Rightarrow> reg_state \<Rightarrow> reg_pc \<Rightarrow> ('w, reg_pc) act" where
  "reg_resume B s PcStart =
     (if password s \<noteq> confirmPassword s then ret (PcEnd (Some mismatch_msg))
      else try_catch (bindE (createUserWithEmailAndPassword B (email s) (password s))
                       (\<lambda>user. ret (PcCreated user))) reg_catch)"
| "reg_resume B s (PcCreated user) =
     try_catch
       (case imageUri s of
          None \<Rightarrow> store_profile B s user []
        | Some uri \<Rightarrow>
            if truthy_str uri then bindE (fetch B uri) (\<lambda>response. ret (PcFetched user response))
            else store_profile B s user [])
       reg_catch"
| "reg_resume B s (PcFetched user response) =
     try_catch (bindE (blob_of B response) (\<lambda>blob. ret (PcRead user blob))) reg_catch"
| "reg_resume B s (PcRead user blob) =
     try_catch (bindE (uploadBytes B (profile_path (uid user)) blob) (\<lambda>_. ret (PcUploaded user)))
       reg_catch"
| "reg_resume B s (PcUploaded user) =
     try_catch (bindE (getDownloadURL B (profile_path (uid user))) (\<lambda>url. ret (PcUrl user url)))
       reg_catch"
| "reg_resume B s (PcUrl user url) = try_catch (store_profile B s user url) reg_catch"
| "reg_resume B s (PcEnd r) = ret (PcEnd r)"

fun is_end :: "reg_pc \<Rightarrow> bool" where
  "is_end (PcEnd _) = True"
| "is_end _ = False"

lemma reg_resume_Inr_io: "\<exists>pc' \<sigma>'. reg_resume B s pc (w, effs) = (Inr pc', \<sigma>')"
  by (cases pc)
     (auto simp: act_simps sdk_defs reg_catch_def store_profile_def
        split: if_splits option.splits sum.splits prod.splits)

lemma reg_resume_Inr: "\<exists>pc' \<sigma>'. reg_resume B s pc \<sigma> = (Inr pc', \<sigma>')"
  using reg_resume_Inr_io [of B s pc "fst \<sigma>" "snd \<sigma>"] by simp

subsection \<open>Two invocations interleaved\<close>

text \<open>
  The live screen state, the two invocations' suspension points, and the shared world
  and effects.
\<close>

record 'w race_state =
  screen :: reg_state
  th1 :: reg_pc
  th2 :: reg_pc
  env :: "'w io"

text \<open>
  The live screen state after an invocation's segment: \<open>setError\<close> when it ends with a
  message.  A rejection outside the \<open>catch\<close> (which the handler never has) would end the
  invocation with no state update.
\<close>

fun end_update :: "reg_pc \<Rightarrow> reg_state \<Rightarrow> reg_state" where
  "end_update (PcEnd r) scr = set_error (Inr r) scr"
| "end_update _ scr = scr"

definition resume_thread ::
  "'w backend \<Rightarrow> reg_state \<Rightarrow> reg_pc \<Rightarrow> reg_state \<times> 'w io \<Rightarrow> reg_pc \<times> reg_state \<times> 'w io" where
  "resume_thread B s pc c =
     (case c of (scr, \<sigma>) \<Rightarrow>
        case reg_resume B s pc \<sigma> of
          (Inr pc', \<sigma>') \<Rightarrow> (pc', end_update pc' scr, \<sigma>')
        | (Inl e, \<sigma>') \<Rightarrow> (PcEnd None, scr, \<sigma>'))"

datatype tid = T1 | T2

definition race_start :: "reg_state \<Rightarrow> 'w io \<Rightarrow> 'w race_state" where
  "race_start s \<sigma>0 = \<lparr>screen = s, th1 = PcStart, th2 = PcStart, env = \<sigma>0\<rparr>"

text \<open>One segment of the invocation \<open>t\<close>, if it has not ended.\<close>

fun race_next :: "'w backend \<Rightarrow> reg_state \<Rightarrow> tid \<Rightarrow> 'w race_state \<Rightarrow> 'w race_state" where
  "race_next B s T1 r =
     (if is_end (th1 r) then r
      else case resume_thread B s (th1 r) (screen r, env r) of
        (pc', scr', \<sigma>') \<Rightarrow> r\<lparr>th1 := pc', screen := scr', env := \<sigma>'\<rparr>)"
| "race_next B s T2 r =
     (if is_end (th2 r) then r
      else case resume_thread B s (th2 r) (screen r, env r) of
        (pc', scr', \<sigma>') \<Rightarrow> r\<lparr>th2 := pc', screen := scr', env := \<sigma>'\<rparr>)"

text \<open>A schedule: the order in which the event loop resumes the two invocations.\<close>

fun race_run :: "'w backend \<Rightarrow> reg_state \<Rightarrow> tid list \<Rightarrow> 'w race_state \<Rightarrow> 'w race_state" where
  "race_run B s [] r = r"
| "race_run B s (t # ts) r = race_run B s ts (race_next B s t r)"

inductive race_reach :: "'w backend \<Rightarrow> reg_state \<Rightarrow> 'w io \<Rightarrow> 'w race_state \<Rightarrow> bool"
  for B s \<sigma>0 where
  start: "race_reach B s \<sigma>0 (race_start s \<sigma>0)"
| step: "race_reach B s \<sigma>0 r \<Longrightarrow> race_reach B s \<sigma>0 (race_next B s t r)"

subsection \<open>Two submissions of a fresh draft over the Firebase backend\<close>

text \<open>
  The message of the rejected duplicate, and the worlds after the first account
  creation and after its profile write.  \<open>fresh_draft\<close> collects the conditions under
  which a single submission succeeds (compare \<open>register_then_login\<close>).
\<close>

definition dup_msg :: string where
  "dup_msg = ''Firebase: Error (auth/email-already-in-use).''"

definition won_world :: "reg_state \<Rightarrow> fb_world \<Rightarrow> fb_world" where
  "won_world s w = w\<lparr>accounts := (accounts w)(email s \<mapsto> \<lparr>acc_uid = uid_of (next_uid w), acc_password = password s\<rparr>),
     next_uid := Suc (next_uid w), current_user := Some (uid_of (next_uid w))\<rparr>"

definition stored_world :: "reg_state \<Rightarrow> string \<Rightarrow> fb_world \<Rightarrow> fb_world" where
  "stored_world s bd w = (won_world s w)\<lparr>docs := (docs w)((''users'', uid_of (next_uid w)) \<mapsto> profile_doc s bd [])\<rparr>"

definition new_user :: "reg_state \<Rightarrow> fb_world \<Rightarrow> fb_user" where
  "new_user s w = \<lparr>uid = uid_of (next_uid w), user_email = email s\<rparr>"

definition fresh_draft :: "reg_state \<Rightarrow> fb_world \<Rightarrow> string \<Rightarrow> bool" where
  "fresh_draft s w bd \<longleftrightarrow> faults w = {} \<and> password s = confirmPassword s \<and> valid_email (email s) \<and>
     6 \<le> length (password s) \<and> accounts w (email s) = None \<and> \<not> truthy_opt (imageUri s) \<and>
     birth_date_field (birthDate s) = Inr bd"

lemma resume_start_fresh:
  "fresh_draft s w bd \<Longrightarrow> reg_resume firebase s PcStart (w, e) =
     (Inr (PcCreated (new_user s w)), (won_world s w, e @ [Call (CreateUser (email s) (password s))]))"
  unfolding fresh_draft_def by (auto simp: fb_defs act_simps sdk_defs won_world_def new_user_def Let_def)

lemma resume_start_dup:
  "accounts w' (email s) \<noteq> None \<Longrightarrow> faults w' = {} \<Longrightarrow> password s = confirmPassword s \<Longrightarrow>
   valid_email (email s) \<Longrightarrow> 6 \<le> length (password s) \<Longrightarrow>
   reg_resume firebase s PcStart (w', e) =
     (Inr (PcEnd (Some dup_msg)), (w', e @ [Call (CreateUser (email s) (password s)),
        ConsoleLog (fb_error ''auth/email-already-in-use'')]))"
  by (simp add: fb_defs act_simps sdk_defs reg_catch_def dup_msg_def fb_error_def)

lemma resume_created_store:
  "\<not> truthy_opt (imageUri s) \<Longrightarrow> birth_date_field (birthDate s) = Inr bd \<Longrightarrow>
   current_user w' \<noteq> None \<Longrightarrow> OpSetDoc \<notin> faults w' \<Longrightarrow>
   reg_resume firebase s (PcCreated u) (w', e) =
     (Inr (PcEnd None), (w'\<lparr>docs := (docs w')((''users'', uid u) \<mapsto> profile_doc s bd [])\<rparr>,
        e @ [Call (SetDoc ''users'' (uid u) (profile_doc s bd [])),
             Alert reg_success_title reg_success_msg, Navigate Login]))"
  by (cases "imageUri s") (auto simp: fb_defs act_simps sdk_defs store_profile_def)

text \<open>
  The invariant of the interleaving: nothing has run yet, or one invocation (the first
  whose \<open>createUser\<close> ran) has created the account and possibly written the profile
  while the other has not started or has ended with the duplicate error.
\<close>

definition race_side ::
  "reg_state \<Rightarrow> fb_world \<Rightarrow> string \<Rightarrow> effect list \<Rightarrow> reg_pc \<Rightarrow> reg_pc \<Rightarrow> reg_state \<Rightarrow> fb_world io \<Rightarrow> bool" where
  "race_side s w bd effs0 pw pl scr \<sigma> \<longleftrightarrow>
     (pl = PcStart \<and> scr = s \<or> pl = PcEnd (Some dup_msg) \<and> scr = s\<lparr>error := dup_msg\<rparr>) \<and>
     (pw = PcCreated (new_user s w) \<and> fst \<sigma> = won_world s w \<and> navigations (snd \<sigma>) = navigations effs0 \<or>
      pw = PcEnd None \<and> fst \<sigma> = stored_world s bd w \<and> navigations (snd \<sigma>) = navigations effs0 @ [Login])"

definition race_inv ::
  "reg_state \<Rightarrow> fb_world \<Rightarrow> string \<Rightarrow> effect list \<Rightarrow> reg_pc \<Rightarrow> reg_pc \<Rightarrow> reg_state \<Rightarrow> fb_world io \<Rightarrow> bool" where
  "race_inv s w bd effs0 p q scr \<sigma> \<longleftrightarrow>
     (p = PcStart \<and> q = PcStart \<and> scr = s \<and> \<sigma> = (w, effs0)) \<or>
     race_side s w bd effs0 p q scr \<sigma> \<or> race_side s w bd effs0 q p scr \<sigma>"

lemma race_inv_sym: "race_inv s w bd effs0 p q scr \<sigma> \<longleftrightarrow> race_inv s w bd effs0 q p scr \<sigma>"
  by (auto simp: race_inv_def)

lemma won_world_simps [simp]:
  "accounts (won_world s w) (email s) = Some \<lparr>acc_uid = uid_of (next_uid w), acc_password = password s\<rparr>"
  "faults (won_world s w) = faults w" "current_user (won_world s w) = Some (uid_of (next_uid w))"
  "docs (won_world s w) = docs w"
  by (simp_all add: won_world_def)

lemma stored_world_simps [simp]:
  "accounts (stored_world s bd w) (email s) = Some \<lparr>acc_uid = uid_of (next_uid w), acc_password = password s\<rparr>"
  "faults (stored_world s bd w) = faults w" "current_user (stored_world s bd w) = Some (uid_of (next_uid w))"
  "(won_world s w)\<lparr>docs := (docs w)((''users'', uid (new_user s w)) \<mapsto> profile_doc s bd [])\<rparr> = stored_world s bd w"
  by (simp_all add: stored_world_def won_world_def new_user_def)

lemma race_inv_resume:
  assumes fresh: "fresh_draft s w bd" and inv: "race_inv s w bd effs0 p q scr \<sigma>" and run: "\<not> is_end p"
    and res: "resume_thread firebase s p (scr, \<sigma>) = (p', scr', \<sigma>')"
  shows "race_inv s w bd effs0 p' q scr' \<sigma>'"
proof -
  obtain wo eo where \<sigma>: "\<sigma> = (wo, eo)" by (cases \<sigma>)
  have f: "faults w = {}" "password s = confirmPassword s" "valid_email (email s)" "6 \<le> length (password s)"
    "\<not> truthy_opt (imageUri s)" "birth_date_field (birthDate s) = Inr bd"
    using fresh unfolding fresh_draft_def by blast+
  from inv consider (both) "p = PcStart" "q = PcStart" "scr = s" "\<sigma> = (w, effs0)"
    | (win) "race_side s w bd effs0 p q scr \<sigma>" | (lose) "race_side s w bd effs0 q p scr \<sigma>"
    unfolding race_inv_def by blast
  then show ?thesis
  proof cases
    case both
    then have "resume_thread firebase s p (scr, \<sigma>) = (PcCreated (new_user s w), s,
                 (won_world s w, effs0 @ [Call (CreateUser (email s) (password s))]))"
      using resume_start_fresh [OF fresh, of effs0] by (simp add: resume_thread_def del: reg_resume.simps)
    with both res show ?thesis by (simp add: race_inv_def race_side_def)
  next
    case win
    with run have p: "p = PcCreated (new_user s w)" "wo = won_world s w"
      by (auto simp: race_side_def \<sigma>)
    then have "resume_thread firebase s p (scr, \<sigma>) = (PcEnd None, scr,
                 (stored_world s bd w, eo @ [Call (SetDoc ''users'' (uid (new_user s w)) (profile_doc s bd [])),
                    Alert reg_success_title reg_success_msg, Navigate Login]))"
      using f resume_created_store [of s bd "won_world s w" "new_user s w" eo]
      by (simp add: resume_thread_def set_error_def \<sigma> del: reg_resume.simps)
    with win res p show ?thesis by (auto simp: race_inv_def race_side_def \<sigma>)
  next
    case lose
    with run have p: "p = PcStart" "scr = s" by (auto simp: race_side_def)
    from lose have "accounts wo (email s) \<noteq> None \<and> faults wo = {}"
      using f by (auto simp: race_side_def \<sigma>)
    then have "resume_thread firebase s p (scr, \<sigma>) = (PcEnd (Some dup_msg), s\<lparr>error := dup_msg\<rparr>,
                 (wo, eo @ [Call (CreateUser (email s) (password s)),
                    ConsoleLog (fb_error ''auth/email-already-in-use'')]))"
      using f p resume_start_dup [of wo s eo]
      by (simp add: resume_thread_def set_error_def \<sigma> del: reg_resume.simps)
    with lose res show ?thesis by (auto simp: race_inv_def race_side_def \<sigma>)
  qed
qed

lemma race_reach_inv:
  assumes fresh: "fresh_draft s w bd" and "race_reach firebase s (w, effs0) r"
  shows "race_inv s w bd effs0 (th1 r) (th2 r) (screen r) (env r)"
  using assms(2)
proof induction
  case start
  show ?case by (simp add: race_start_def race_inv_def)
next
  case (step r t)
  show ?case
  proof (cases t)
    case T1
    with step race_inv_resume [OF fresh, of effs0 "th1 r" "th2 r" "screen r" "env r"] show ?thesis
      by (auto split: prod.split)
  next
    case T2
    with step race_inv_resume [OF fresh, of effs0 "th2 r" "th1 r" "screen r" "env r"] show ?thesis
      by (auto simp: race_inv_sym split: prod.split)
  qed
qed

text \<open>
  C18: Two presses of Register on a fresh draft, with the backend working: in every
  interleaving, once both invocations have ended, exactly one account exists for the
  email (the uid counter advanced once), exactly one profile was written, the screen
  navigated to Login once, and the screen shows \<open>auth/email-already-in-use\<close> for a
  registration that succeeded.
\<close>

theorem double_submit_outcome:
  assumes "fresh_draft s w bd" and "race_reach firebase s (w, effs0) r"
    and "is_end (th1 r)" and "is_end (th2 r)"
  shows "accounts (fst (env r)) =
           (accounts w)(email s \<mapsto> \<lparr>acc_uid = uid_of (next_uid w), acc_password = password s\<rparr>) \<and>
         next_uid (fst (env r)) = Suc (next_uid w) \<and>
         docs (fst (env r)) = (docs w)((''users'', uid_of (next_uid w)) \<mapsto> profile_doc s bd []) \<and>
         navigations (snd (env r)) = navigations effs0 @ [Login] \<and>
         error (screen r) = dup_msg"
proof -
  have "race_side s w bd effs0 (th1 r) (th2 r) (screen r) (env r) \<or>
        race_side s w bd effs0 (th2 r) (th1 r) (screen r) (env r)"
    using race_reach_inv [OF assms(1,2)] assms(3,4) by (auto simp: race_inv_def)
  then have "fst (env r) = stored_world s bd w \<and> screen r = s\<lparr>error := dup_msg\<rparr> \<and>
             navigations (snd (env r)) = navigations effs0 @ [Login]"
    using assms(3,4) by (auto simp: race_side_def)
  then show ?thesis by (simp add: stored_world_def won_world_def)
qed

lemma race_run_reach: "race_reach B s \<sigma>0 r \<Longrightarrow> race_reach B s \<sigma>0 (race_run B s ts r)"
proof (induction ts arbitrary: r)
  case (Cons t ts)
  then show ?case by (simp add: race_reach.step)
qed simp

end
