(* ===== verification/IsoDate.thy ===== *)
theory IsoDate
  imports JsDate
begin

text \<open>
  Reading the stored birth date back.  \<open>handleRegister\<close> stores
  \<open>birthDate.toISOString().split('T')[0]\<close> (\<open>src/screens/RegisterScreen.js\<close>, line 54),
  a date-only string of ECMAScript's Date Time String Format: \<open>YYYY-MM-DD\<close>, or
  \<open>\<plusminus>YYYYYY-MM-DD\<close> outside years 0 to 9999.  Every field has a fixed width, so the
  parser below splits the string at fixed positions, as the language defines
  \<open>Date.parse\<close> for this format; a date-only form denotes UTC midnight of its day.
  \<open>date_only_parse_iso_date\<close> reads the date part of every time in range back to its
  day; the root theory applies it to the field \<open>handleRegister\<close> writes (C14).
\<close>

definition is_digit :: "char \<Rightarrow> bool" where
  "is_digit c \<longleftrightarrow> 48 \<le> (of_char c :: nat) \<and> (of_char c :: nat) \<le> 57"

definition parse_digits :: "nat \<Rightarrow> string \<Rightarrow> nat option" where
  "parse_digits w s = (if length s = w \<and> list_all is_digit s then Some (parse_decimal s) else None)"

text \<open>
  The year (four digits, or a sign and six digits, where \<open>-000000\<close> is not a year), then
  \<open>-MM-DD\<close> with the month 01 to 12 and the date 01 to 31; any other text is an invalid date.
\<close>

definition parse_year :: "string \<Rightarrow> (int \<times> string) option" where
  "parse_year s =
     (case s of
        [] \<Rightarrow> None
      | c # r \<Rightarrow>
          if c = CHR ''+'' \<or> c = CHR ''-'' then
            (case parse_digits 6 (take 6 r) of
               None \<Rightarrow> None
             | Some n \<Rightarrow>
                 if c = CHR ''-'' \<and> n = 0 then None
                 else Some (if c = CHR ''-'' then - int n else int n, drop 6 r))
          else
            (case parse_digits 4 (take 4 s) of
               None \<Rightarrow> None
             | Some n \<Rightarrow> Some (int n, drop 4 s)))"

definition parse_month_day :: "int \<Rightarrow> string \<Rightarrow> js_date" where
  "parse_month_day y r =
     (if length r = 6 \<and> r ! 0 = CHR ''-'' \<and> r ! 3 = CHR ''-'' then
        (case (parse_digits 2 (take 2 (drop 1 r)), parse_digits 2 (drop 4 r)) of
           (Some m, Some dt) \<Rightarrow>
             if 1 \<le> m \<and> m \<le> 12 \<and> 1 \<le> dt \<and> dt \<le> 31
             then TimeClip (msPerDay * MakeDay y (int m - 1) (int dt)) else InvalidDate
         | _ \<Rightarrow> InvalidDate)
      else InvalidDate)"

definition date_only_parse :: "string \<Rightarrow> js_date" where
  "date_only_parse s = (case parse_year s of None \<Rightarrow> InvalidDate | Some (y, r) \<Rightarrow> parse_month_day y r)"

subsection \<open>Fixed-width fields\<close>

lemma decimal_length: "0 < w \<Longrightarrow> n < 10 ^ w \<Longrightarrow> length (decimal n) \<le> w"
proof (induction n arbitrary: w rule: decimal.induct)
  case (1 n)
  show ?case
  proof (cases "n < 10")
    case True
    with "1.prems" show ?thesis by (simp add: decimal.simps [of n])
  next
    case False
    obtain v where w: "w = Suc v" using "1.prems" by (cases w) auto
    have v: "0 < v" using False "1.prems"(2) w by (cases v) auto
    have "n div 10 < 10 ^ v" using "1.prems"(2) w by (simp add: div_less_iff_less_mult mult.commute)
    with "1.IH" [OF False v] have "length (decimal (n div 10)) \<le> v" .
    with False w show ?thesis by (simp add: decimal.simps [of n])
  qed
qed

lemma pad0_length: "0 < w \<Longrightarrow> n < 10 ^ w \<Longrightarrow> length (pad0 w n) = w"
  using decimal_length [of w n] by (simp add: pad0_def Let_def)

lemma parse_decimal_append:
  "parse_decimal (xs @ ys) = parse_decimal xs * 10 ^ length ys + parse_decimal ys"
proof (induction ys rule: rev_induct)
  case Nil
  show ?case by (simp add: parse_decimal_def)
next
  case (snoc y ys)
  have "parse_decimal (xs @ ys @ [y]) = 10 * parse_decimal (xs @ ys) + digit_val y"
    using parse_decimal_snoc [of "xs @ ys" y] by simp
  with snoc show ?case by (simp add: parse_decimal_snoc algebra_simps)
qed

lemma parse_decimal_zeros: "parse_decimal (replicate k (CHR ''0'') @ s) = parse_decimal s"
  by (induction k) (simp_all add: parse_decimal_def digit_val_def)

lemma is_digit_pad0: "list_all is_digit (pad0 w n)"
proof -
  have "is_digit c" if "c \<in> set (pad0 w n)" for c
  proof -
    from that pad0_digits [of w n] obtain k where "k < 10" "c = digit_char k" by blast
    then show ?thesis by (simp add: is_digit_def of_char_digit)
  qed
  then show ?thesis by (simp add: list_all_iff)
qed

lemma parse_decimal_pad0: "parse_decimal (pad0 w n) = n"
  by (simp add: pad0_def Let_def parse_decimal_zeros)

lemma parse_digits_pad0: "0 < w \<Longrightarrow> n < 10 ^ w \<Longrightarrow> parse_digits w (pad0 w n) = Some n"
  by (simp add: parse_digits_def pad0_length is_digit_pad0 parse_decimal_pad0)

lemma pad0_cons: "0 < w \<Longrightarrow> n < 10 ^ w \<Longrightarrow> \<exists>c cs. pad0 w n = c # cs \<and> is_digit c"
  using pad0_length [of w n] is_digit_pad0 [of w n] by (cases "pad0 w n") auto

lemma is_digit_sign: "\<not> is_digit (CHR ''+'')" "\<not> is_digit (CHR ''-'')"
  by (simp_all add: is_digit_def)

lemma parse_year_4:
  assumes "0 \<le> y" "y \<le> 9999"
  shows "parse_year (pad0 4 (nat y) @ r) = Some (y, r)"
proof -
  have n: "nat y < 10 ^ 4" using assms by simp
  obtain c cs where p: "pad0 4 (nat y) = c # cs" "is_digit c" using pad0_cons [OF _ n] by auto
  have len: "length (pad0 4 (nat y)) = 4" using pad0_length [OF _ n] by simp
  have "c \<noteq> CHR ''+'' \<and> c \<noteq> CHR ''-''" using p(2) is_digit_sign by auto
  with p len show ?thesis
    using parse_digits_pad0 [OF _ n] assms by (simp add: parse_year_def)
qed

lemma parse_year_6:
  assumes "y < 0 \<or> 9999 < y" "\<bar>y\<bar> < 10 ^ 6"
  shows "parse_year ((if y < 0 then ''-'' else ''+'') @ pad0 6 (nat \<bar>y\<bar>) @ r) = Some (y, r)"
proof -
  have n: "nat \<bar>y\<bar> < 10 ^ 6" using assms(2) by (simp add: nat_less_iff)
  have len: "length (pad0 6 (nat \<bar>y\<bar>)) = 6" using pad0_length [OF _ n] by simp
  have p: "parse_digits 6 (pad0 6 (nat \<bar>y\<bar>)) = Some (nat \<bar>y\<bar>)" using parse_digits_pad0 [OF _ n] by simp
  show ?thesis
  proof (cases "y < 0")
    case True
    then have "nat \<bar>y\<bar> \<noteq> 0" "- int (nat \<bar>y\<bar>) = y" by simp_all
    with True len p show ?thesis by (simp add: parse_year_def)
  next
    case False
    then have y: "0 \<le> y" by simp
    from y len p show ?thesis by (simp add: parse_year_def)
  qed
qed

lemma length_two: "length xs = 2 \<Longrightarrow> \<exists>a b. xs = [a, b]"
  by (cases xs; cases "tl xs") auto

lemma parse_month_day_pad0:
  assumes "m < 12" "1 \<le> dt" "dt \<le> 31"
  shows "parse_month_day y (''-'' @ pad0 2 (m + 1) @ ''-'' @ pad0 2 (nat dt)) =
           TimeClip (msPerDay * MakeDay y (int m) dt)"
proof -
  have m: "m + 1 < 10 ^ 2" and d: "nat dt < 10 ^ 2" using assms by simp_all
  have lm: "length (pad0 2 (m + 1)) = 2" and ld: "length (pad0 2 (nat dt)) = 2"
    using pad0_length [OF _ m] pad0_length [OF _ d] by simp_all
  then obtain a b e f where ab: "pad0 2 (m + 1) = [a, b]" and ef: "pad0 2 (nat dt) = [e, f]"
    using length_two by blast
  have "1 \<le> nat dt" "nat dt \<le> 31" "int (nat dt) = dt" using assms by simp_all
  then show ?thesis
    using parse_digits_pad0 [OF _ m] parse_digits_pad0 [OF _ d] assms(1) ab ef
    by (simp add: parse_month_day_def)
qed

subsection \<open>The round trip\<close>

lemma DaysInMonth_le: "m < 12 \<Longrightarrow> DaysInMonth leap m \<le> 31"
  unfolding DaysInMonth_def by (auto simp: less_Suc_eq numeral_eq_Suc)

lemma Day_bound: "\<bar>t\<bar> \<le> maxTime \<Longrightarrow> \<bar>Day t\<bar> \<le> 100000000"
proof -
  assume t: "\<bar>t\<bar> \<le> maxTime"
  have "t div msPerDay \<le> maxTime div msPerDay" using t by (intro zdiv_mono1) (simp_all add: msPerDay_def)
  moreover have "(- maxTime) div msPerDay \<le> t div msPerDay" using t by (intro zdiv_mono1) (simp_all add: msPerDay_def)
  ultimately show ?thesis by (simp add: Day_def maxTime_def msPerDay_def)
qed

lemma YearFromDay_bound:
  assumes "\<bar>d\<bar> \<le> 100000000"
  shows "\<bar>YearFromDay d\<bar> < 10 ^ 6"
proof -
  have b: "DayFromYear (YearFromDay d) \<le> d" "d < DayFromYear (YearFromDay d + 1)"
    using YearFromDay_bracket [of d] by simp_all
  have hi: "YearFromDay d < 1000000"
  proof (rule ccontr)
    assume "\<not> YearFromDay d < 1000000"
    then have "DayFromYear 1000000 \<le> DayFromYear (YearFromDay d)" by (metis DayFromYear_mono_iff not_less)
    with b(1) assms show False by (simp add: DayFromYear_def)
  qed
  have lo: "- 1000000 < YearFromDay d"
  proof (rule ccontr)
    assume "\<not> - 1000000 < YearFromDay d"
    then have "YearFromDay d + 1 \<le> - 999999" by simp
    then have "DayFromYear (YearFromDay d + 1) \<le> DayFromYear (- 999999)" by (metis DayFromYear_mono_iff not_less)
    with b(2) assms show False by (simp add: DayFromYear_def)
  qed
  from hi lo show ?thesis by simp
qed

lemma date_only_parse_iso_date:
  assumes "\<bar>d\<bar> \<le> 100000000"
  shows "date_only_parse (iso_date d) = DateVal (msPerDay * d)"
proof -
  define y where "y = YearFromDay d"
  define rest where "rest = ''-'' @ pad0 2 (MonthFromDay d + 1) @ ''-'' @ pad0 2 (nat (DateFromDay d))"
  have m: "MonthFromDay d < 12" by (rule MonthFromDay_less)
  have dt: "1 \<le> DateFromDay d" "DateFromDay d \<le> 31"
    using DateFromDay_bounds [of d] DaysInMonth_le [OF m, of "InLeapYear (YearFromDay d)"] by auto
  have "\<bar>msPerDay * d\<bar> \<le> maxTime" using assms by (simp add: msPerDay_def maxTime_def abs_mult)
  then have md: "parse_month_day y rest = DateVal (msPerDay * d)"
    using parse_month_day_pad0 [OF m dt] MakeDay_civil [of d]
    by (simp add: rest_def y_def TimeClip_def)
  have iso: "iso_date d = iso_year y @ rest" by (simp add: iso_date_def y_def rest_def)
  show ?thesis
  proof (cases "0 \<le> y \<and> y \<le> 9999")
    case True
    then show ?thesis using md parse_year_4 [of y rest] iso
      by (simp add: date_only_parse_def iso_year_def)
  next
    case False
    then have out: "y < 0 \<or> 9999 < y" by auto
    have b: "\<bar>y\<bar> < 10 ^ 6" using YearFromDay_bound [OF assms] by (simp add: y_def)
    have "iso_year y = (if y < 0 then ''-'' else ''+'') @ pad0 6 (nat \<bar>y\<bar>)"
      using False unfolding iso_year_def by (simp only: if_False)
    then show ?thesis using md parse_year_6 [OF out b, of rest] iso
      by (simp add: date_only_parse_def)
  qed
qed

end
