(* ===== verification/RegisterSpec.thy ===== *)
theory RegisterSpec
  imports RegisterScreen
begin

text \<open>
  The registration contract of the spec (sections 4.2, 7 and 9) as an abstract
  specification: an explicit ordered sequence of fallible steps, chained on results, each
  failure tagged with its kind from the typed enumeration the spec proposes
  (\<open>ValidationMismatch\<close>, \<open>AccountCreationFailed\<close>, \<open>UploadFailed\<close>,
  \<open>ProfileWriteFailed\<close>) and carrying the backend's raw error.  The failure is then
  handled once, as section 7 says: logged, and its message shown as the inline error.
  \<open>handleRegister\<close>, one \<open>try\<close> block with one untyped \<open>catch\<close>, refines it exactly.
\<close>

datatype reg_failure =
    ValidationMismatch
  | AccountCreationFailed js_error
  | UploadFailed js_error
  | ProfileWriteFailed js_error

text \<open>A step of the specification: its result, or the kind of failure that stopped the pipeline.\<close>

type_synonym ('w, 'a) spec_act = "'w io \<Rightarrow> (reg_failure + 'a) \<times> 'w io"

definition with_kind :: "(js_error \<Rightarrow> reg_failure) \<Rightarrow> ('w, 'a) act \<Rightarrow> ('w, 'a) spec_act" where
  "with_kind K m = (\<lambda>\<sigma>. case m \<sigma> of (Inl e, \<sigma>') \<Rightarrow> (Inl (K e), \<sigma>') | (Inr x, \<sigma>') \<Rightarrow> (Inr x, \<sigma>'))"

definition bindS :: "('w, 'a) spec_act \<Rightarrow> ('a \<Rightarrow> ('w, 'b) spec_act) \<Rightarrow> ('w, 'b) spec_act" where
  "bindS m f = (\<lambda>\<sigma>. case m \<sigma> of (Inl k, \<sigma>') \<Rightarrow> (Inl k, \<sigma>') | (Inr x, \<sigma>') \<Rightarrow> f x \<sigma>')"

definition failS :: "reg_failure \<Rightarrow> ('w, 'a) spec_act" where
  "failS k = (\<lambda>\<sigma>. (Inl k, \<sigma>))"

definition emitS :: "effect \<Rightarrow> ('w, unit) spec_act" where
  "emitS eff = (\<lambda>(w, effs). (Inr (), (w, effs @ [eff])))"

definition image_upload :: "'w backend \<Rightarrow> string \<Rightarrow> string \<Rightarrow> ('w, string) act" where
  "image_upload B u uri =
     bindE (fetch B uri) (\<lambda>r. bindE (blob_of B r) (\<lambda>b.
     bindE (uploadBytes B (profile_path u) b) (\<lambda>_. getDownloadURL B (profile_path u))))"

text \<open>
  Steps 1 to 5 of section 4.2: the local check, account creation, the optional image
  upload under the account's path, the profile record write (its birth date serialised
  as an ISO calendar date), and the confirmation and navigation.
\<close>

definition register_spec :: "'w backend \<Rightarrow> reg_state \<Rightarrow> ('w, unit) spec_act" where
  "register_spec B s =
     (if password s \<noteq> confirmPassword s then failS ValidationMismatch
      else
        bindS (with_kind AccountCreationFailed (createUserWithEmailAndPassword B (email s) (password s))) (\<lambda>user.
        bindS (with_kind UploadFailed
                 (if truthy_opt (imageUri s) then image_upload B (uid user) (the (imageUri s)) else ret [])) (\<lambda>url.
        bindS (with_kind ProfileWriteFailed
                 (bindE (lift_sum (birth_date_field (birthDate s))) (\<lambda>bd.
                  setDoc B ''users'' (uid user) (profile_doc s bd url)))) (\<lambda>_.
        bindS (emitS (Alert reg_success_title reg_success_msg)) (\<lambda>_. emitS (Navigate Login))))))"

text \<open>Section 7: a failure becomes the inline error carrying the raw message; backend failures are logged.\<close>

fun failure_message :: "reg_failure \<Rightarrow> string" where
  "failure_message ValidationMismatch = mismatch_msg"
| "failure_message (AccountCreationFailed e) = js_message e"
| "failure_message (UploadFailed e) = js_message e"
| "failure_message (ProfileWriteFailed e) = js_message e"

fun failure_log :: "reg_failure \<Rightarrow> effect list" where
  "failure_log ValidationMismatch = []"
| "failure_log (AccountCreationFailed e) = [ConsoleLog e]"
| "failure_log (UploadFailed e) = [ConsoleLog e]"
| "failure_log (ProfileWriteFailed e) = [ConsoleLog e]"

definition register_spec_run :: "'w backend \<Rightarrow> reg_state \<times> 'w io \<Rightarrow> reg_state \<times> 'w io" where
  "register_spec_run B c =
     (case c of (s, \<sigma>) \<Rightarrow>
        case register_spec B s \<sigma> of
          (Inr _, \<sigma>') \<Rightarrow> (s, \<sigma>')
        | (Inl k, (w', effs')) \<Rightarrow> (s\<lparr>error := failure_message k\<rparr>, (w', effs' @ failure_log k)))"

lemmas spec_defs = register_spec_def with_kind_def bindS_def failS_def emitS_def image_upload_def

text \<open>
  C24: \<open>handleRegister\<close> refines the typed pipeline of the specification: for every
  backend and every draft, it leaves the same screen state, world and effects as the
  specification followed by its failure handling.
\<close>

theorem handleRegister_refines_spec: "handleRegister B c = register_spec_run B c"
proof -
  obtain s w effs where c: "c = (s, (w, effs))" by (cases c) auto
  show ?thesis
    unfolding c register_spec_run_def
    by (cases "imageUri s")
       (simp_all add: reg_defs act_simps spec_defs upload_photo_def mismatch_msg_def
         split: sum.split)
qed

end
