(* ===== verification/Spec2Isabelle.thy ===== *)
theory Spec2Isabelle
  imports LoginScreen RegisterScreen FavoritesScreen Firebase RegisterRace IsoDate RegisterSpec
begin

text \<open>
  \<^bold>\<open>A verification model of the Huellitas pet-shop app's authentication screens.\<close>

  \<^bold>\<open>The program.\<close>  Three React Native screens under \<open>src/screens\<close>.  \<open>Login.js\<close> keeps
  email and password in React state and, on Sign In, awaits the SDK's
  \<open>signInWithEmailAndPassword\<close>, then alerts and navigates to Home, or logs the error and
  alerts a fixed message.  \<open>RegisterScreen.js\<close> keeps a thirteen-field draft; on Register
  its \<open>handleRegister\<close> checks that the two passwords agree, then, in one \<open>try\<close> block,
  awaits \<open>createUserWithEmailAndPassword\<close>, optionally uploads the picked image
  (\<open>fetch\<close>, \<open>blob()\<close>, \<open>uploadBytes\<close>, \<open>getDownloadURL\<close>), writes the profile with
  \<open>setDoc\<close>, alerts and navigates to Login; any rejection sets the visible error to its
  message.  \<open>onChangeDate\<close> and \<open>pickImage\<close> update the draft.  \<open>Favorites.js\<close> is a
  static screen.  The screens share no state; they interact only through navigation and
  through the backend (an account created by registration is the one login checks).

  \<^bold>\<open>The library.\<close>
  \<^item> \<open>Prelude\<close>: JavaScript values (\<open>undefined\<close> as \<open>None\<close>, truthiness), the errors a
    \<open>catch\<close> receives (\<open>js_error\<close>, \<open>error.message\<close> as \<open>js_message\<close>), the observable
    effects (backend requests, alerts, navigations, console output), and the action type
    \<open>('w, 'a) act\<close>: an asynchronous block run to completion on a world \<open>'w\<close> and the
    effect list, with \<open>bindE\<close> for \<open>await\<close> inside a \<open>try\<close>, \<open>try_catch\<close>, and
    evaluation rules \<open>act_simps\<close>.  Decimal printing and its parse round trip.
  \<^item> \<open>Firebase_Api\<close>: the interface to the SDK, a record \<open>'w backend\<close> of the six
    operations; each SDK call is an action that records its request.  The screen theories
    are stated over an arbitrary backend, so each of their lemmas holds whatever the
    backend answers, failures included.
  \<^item> \<open>LoginScreen\<close>: \<open>login_state\<close> (the two \<open>useState\<close> hooks), \<open>logueo\<close>, the
    events of the view and \<open>login_step\<close>/\<open>login_run\<close>; \<open>logueo\<close> split at its
    \<open>await\<close> (\<open>login_pc\<close>, \<open>logueo_resume\<close>) and two presses interleaved by a
    schedule (\<open>login_race\<close>).
  \<^item> \<open>JsDate\<close>: the ECMAScript date arithmetic behind \<open>toISOString\<close> (line 54 of \<open>RegisterScreen.js\<close>) and
    \<open>toDateString\<close> (line 133), with \<open>split\<close>; modelled from the language definition.
  \<^item> \<open>IsoDate\<close>: the parser of ECMAScript's date-only Date Time String Format (what
    \<open>new Date(s)\<close> does with the stored birth date), field by fixed-width field.
  \<^item> \<open>RegisterScreen\<close>: \<open>reg_state\<close> (the thirteen hooks), \<open>handleRegister\<close> split as
    in the source into the guard, the \<open>try\<close> body \<open>register_try\<close> with its image step
    \<open>upload_photo\<close> and the \<open>catch\<close>; \<open>onChangeDate\<close>, \<open>pickImage\<close>, the rendered
    view \<open>reg_view\<close>, the events \<open>reg_step\<close> (in sequence, \<open>reg_run\<close>) and the
    reachable states \<open>reg_reachable\<close>.
  \<^item> \<open>RegisterRace\<close>: \<open>handleRegister\<close> as resumable segments between its
    \<open>await\<close>s (\<open>reg_pc\<close>, \<open>reg_resume\<close>), and two invocations started by two presses
    of the unguarded Register button, interleaved by the event loop in every order
    (\<open>race_next\<close>, \<open>race_run\<close> over a schedule, \<open>race_reach\<close>).
  \<^item> \<open>RegisterSpec\<close>: the spec's registration contract as an abstract typed pipeline
    (\<open>register_spec\<close>, failures \<open>reg_failure\<close>) with one failure handler
    (\<open>register_spec_run\<close>).
  \<^item> \<open>FavoritesScreen\<close>: the view and the empty button handler.
  \<^item> \<open>Firebase\<close>: a concrete backend (accounts, documents, storage, device files, and a
    set of failing operations standing for outside failures), the environment of the
    screens, used for the end-to-end theorems below and for every witness.

  \<^bold>\<open>What is proved.\<close>  For \<open>handleRegister\<close>, the exact effects and result of each branch
  (C1 to C6): the mismatch guard makes no call; the no-image and image paths store the
  right \<open>photoURL\<close> under the right path; each failure shows its message and stops, and a
  failure after account creation leaves the account without rollback.  For \<open>logueo\<close>,
  both branches (C7, C8).  An invariant of the register screen by rule induction over its
  reachable states: the birth date stays a valid date, so \<open>toISOString\<close> never throws
  there (C9).  End to end over the concrete backend: registration followed by login
  reaches Home (C10); a failed profile write leaves an orphaned account (C11); a second
  submission is rejected as a duplicate (C12).  The birth date is stored as its UTC day
  but shown as its local day: whenever the selected instant lies in the first hours of
  its UTC day, fewer than the device is behind UTC, the screen shows the day before the
  stored one (C13).  In every reachable state the stored date text
  \<open>birthDate.toISOString().split('T')[0]\<close> parses back to the UTC midnight of the
  selected day (C14), so it determines the day exactly.  Events other than submission
  touch no backend (C15); the date picker closes on report (C16); a failed image pick
  changes nothing and is reported to no one (C17).  A double press of Register creates
  one account and one profile and navigates once, yet shows the duplicate-email error
  (C18), in every interleaving, by an invariant over the reachable joint states.  Every
  document \<open>handleRegister\<close> writes, whatever the backend answers, is a \<open>users\<close>
  profile of the draft keyed by the uid it created, with the nine fields in order (C19).
  From every reachable state of the register screen, typing the credentials and pressing
  Register completes a registration (C20): the invariant of C9 composed with the handler
  and the backend.  The visible error is never cleared, so a corrected second press
  succeeds under a stale \<open>Passwords do not match\<close> (C21).  A second press of Sign In
  while the first sign-in is pending sends a second request before the first resumes,
  and Home is pushed twice (C22).  From every reachable state, a picked device image and
  a fresh registration end with the file in storage at the new account's path and its
  download URL in the profile (C23).  \<open>handleRegister\<close> refines the spec's typed
  pipeline of fallible steps with one failure handler exactly, for every backend (C24).

  \<^bold>\<open>Loops and bounds.\<close>  The only loop is the year search of \<open>YearFromTime\<close>
  (\<open>YearFromDay\<close>),
  \<open>year_up\<close>, a \<open>function\<close> whose termination is proved with the measure
  \<open>d - DayFromYear y\<close>; it starts from an estimate proved to be a lower bound.  Time
  values are unbounded \<open>int\<close>s with ECMAScript's range \<open>\<plusminus>8.64e15\<close> as \<open>valid_date\<close>.
  The handlers have no loops: an invocation of \<open>handleRegister\<close> has six \<open>await\<close>s and
  \<open>logueo\<close> one, so a schedule of the interleaving models is a finite list of
  resumptions and every run is a structural recursion over it.  No fuel is needed.

  \<^bold>\<open>Not modelled.\<close>  Styles (\<open>StyleSheet.create\<close>), layout components and images are
  presentation only.  The navigator that maps route names to screens, and
  \<open>credenciales.js\<close> (the SDK configuration), are not in \<open>src\<close>; whether a screen
  stays mounted after \<open>navigate\<close> is the navigator's, so the screen states after a
  navigation (C18, C21) are those of the component's hooks.  React's re-rendering is
  not modelled: a handler reads the state of the render it was started from, which
  outside the interleaving models is the state of the moment it runs, since
  \<open>reg_step\<close> and \<open>login_step\<close> handle each press to completion before the next event.
  Two presses of Register are interleaved at every \<open>await\<close> of \<open>handleRegister\<close>
  (\<open>RegisterRace\<close>), and two presses of Sign In at the \<open>await\<close> of \<open>logueo\<close>
  (\<open>login_race\<close>), both invocations reading the fields of the same render.  Each
  backend call is atomic at its \<open>await\<close>; the SDK's internal concurrency is not
  modelled (the spec places the backend outside the program).  The Date functions
  (\<open>toISOString\<close>, \<open>toDateString\<close>, \<open>TimeClip\<close>) and \<open>split\<close> are the JavaScript
  runtime, modelled from the language definition at the lines that call them.  The
  alert text of \<open>Login.js\<close> line 17 holds its \<open>\<tilde>n\<close> as UTF-8 bytes, not as one
  UTF-16 unit; no theorem reads that character.
\<close>

subsection \<open>Concrete inputs\<close>

text \<open>
  A fresh backend with one local image file, and a draft with matching passwords and the
  date of mount 2025-11-09 00:00 UTC.
\<close>

definition demo_world :: fb_world where
  "demo_world = \<lparr>accounts = Map.empty, next_uid = 0, current_user = None, docs = Map.empty,
     device_files = [''file:///photo.jpg'' \<mapsto> ''JPEG''], bucket = Map.empty, faults = {}\<rparr>"

definition demo_draft :: reg_state where
  "demo_draft = (reg_init 1762646400000)\<lparr>email := ''a@b.com'', password := ''x1secret'',
     confirmPassword := ''x1secret'', username := ''ana''\<rparr>"

definition demo_user :: fb_user where
  "demo_user = \<lparr>uid = ''uid0'', user_email = ''a@b.com''\<rparr>"

definition demo_account :: "string \<rightharpoonup> fb_account" where
  "demo_account = [''a@b.com'' \<mapsto> \<lparr>acc_uid = ''uid0'', acc_password = ''x1secret''\<rparr>]"

text \<open>The world after the demo account is created, with the operations \<open>F\<close> failing.\<close>

definition demo_world1 :: "fb_op set \<Rightarrow> fb_world" where
  "demo_world1 F = demo_world\<lparr>accounts := demo_account, next_uid := 1,
     current_user := Some ''uid0'', faults := F\<rparr>"

definition demo_img_draft :: reg_state where
  "demo_img_draft = demo_draft\<lparr>imageUri := Some ''file:///photo.jpg''\<rparr>"

definition demo_missing_draft :: reg_state where
  "demo_missing_draft = demo_draft\<lparr>imageUri := Some ''file:///missing.jpg''\<rparr>"

definition demo_picked_state :: "reg_state \<times> fb_world io" where
  "demo_picked_state =
     reg_step firebase (reg_step firebase (reg_init 1762646400000, (demo_world, [])) DateButtonPress)
       (DateChange (Some (DateVal 0)))"

definition demo_profile_world :: fb_world where
  "demo_profile_world = (demo_world1 {})\<lparr>docs := [(''users'', ''uid0'') \<mapsto> profile_doc demo_draft ''2025-11-09'' []]\<rparr>"

definition demo_register_effects :: "effect list" where
  "demo_register_effects =
     [Call (CreateUser ''a@b.com'' ''x1secret''), Call (SetDoc ''users'' ''uid0'' (profile_doc demo_draft ''2025-11-09'' [])),
      Alert reg_success_title reg_success_msg, Navigate Login]"

lemmas run_simps = reg_defs act_simps fb_defs upload_photo_none birth_date_field_DateVal
  logueo_def login_init_def Let_def

lemma demo_create:
  "OpCreateUser \<notin> F \<Longrightarrow>
   fb_create_user (demo_world\<lparr>faults := F\<rparr>) ''a@b.com'' ''x1secret'' = (Inr demo_user, demo_world1 F)"
  by (simp add: fb_create_user_def demo_world_def demo_world1_def demo_user_def demo_account_def
      valid_email_def uid_of_def decimal.simps Let_def)

lemma demo_draft_fields:
  "email demo_draft = ''a@b.com''" "password demo_draft = ''x1secret''"
  "confirmPassword demo_draft = ''x1secret''" "imageUri demo_draft = None"
  "birthDate demo_draft = DateVal 1762646400000"
  by (simp_all add: demo_draft_def reg_init_def TimeClip_def maxTime_def)

lemma demo_world1_simps [simp]:
  "faults (demo_world1 F) = F" "current_user (demo_world1 F) = Some ''uid0''"
  "accounts (demo_world1 F) = demo_account" "docs (demo_world1 F) = Map.empty"
  "device_files (demo_world1 F) = [''file:///photo.jpg'' \<mapsto> ''JPEG'']"
  "bucket (demo_world1 F) = Map.empty" "next_uid (demo_world1 F) = 1"
  by (simp_all add: demo_world1_def demo_world_def)

lemma demo_world_faults: "demo_world\<lparr>faults := {}\<rparr> = demo_world"
  by (simp add: demo_world_def)

lemma demo_iso: "iso_date (Day 1762646400000) = ''2025-11-09''"
  by code_simp

lemma demo_register_run:
  "handleRegister firebase (demo_draft, (demo_world, [])) = (demo_draft, (demo_profile_world, demo_register_effects))"
  using demo_create [of "{}"]
  by (simp add: run_simps sdk_defs demo_draft_fields demo_world_faults demo_iso demo_profile_world_def
      demo_register_effects_def demo_user_def)

lemma demo_orphan_run:
  "handleRegister firebase (demo_draft, (demo_world\<lparr>faults := {OpSetDoc}\<rparr>, [])) =
     (demo_draft\<lparr>error := ''Firebase: Error (permission-denied).''\<rparr>, (demo_world1 {OpSetDoc},
      [Call (CreateUser ''a@b.com'' ''x1secret''), Call (SetDoc ''users'' ''uid0'' (profile_doc demo_draft ''2025-11-09'' [])),
       ConsoleLog (fb_error ''permission-denied'')]))"
  using demo_create [of "{OpSetDoc}"]
  by (simp add: run_simps sdk_defs demo_draft_fields demo_iso demo_user_def fb_error_def)

subsection \<open>Registration and login end to end\<close>

text \<open>
  C10: With the Firebase backend working, a fresh valid email, a password of six or more
  characters typed twice, no image and a valid birth date, registration stores the profile
  under the new account's uid and navigates to Login; typing the same credentials on the
  login screen and pressing Sign In then navigates to Home.
\<close>

theorem register_then_login:
  assumes "faults w = {}" and "password s = confirmPassword s"
    and "valid_email (email s)" and "6 \<le> length (password s)"
    and "accounts w (email s) = None" and "\<not> truthy_opt (imageUri s)"
    and "birthDate s = DateVal t"
    and "handleRegister firebase (s, (w, effs)) = (s', (w', effs'))"
  shows "docs w' (''users'', uid_of (next_uid w)) = Some (profile_doc s (iso_date (Day t)) []) \<and>
         navigations effs' = navigations effs @ [Login] \<and>
         login_run firebase (login_init, (w', effs'))
           [LoginEmailText (email s), LoginPasswordText (password s), SignInPress] =
           (\<lparr>login_email = Some (email s), login_password = Some (password s)\<rparr>,
            (w'\<lparr>current_user := Some (uid_of (next_uid w))\<rparr>,
             effs' @ [Call (SignIn (Some (email s)) (Some (password s))),
                      Alert ''Iniciando Sesion'' ''Accediendo.....'', Navigate Home]))"
  using assms by (auto simp: run_simps sdk_defs)

text \<open>
  C11: When the profile write is refused after the account was created, the account
  exists in the backend with the submitted password, no document was written, the error
  shows the refusal and the screen stays: an orphaned account, with no rollback.
\<close>

theorem orphaned_account:
  assumes "faults w = {OpSetDoc}" and "password s = confirmPassword s"
    and "valid_email (email s)" and "6 \<le> length (password s)"
    and "accounts w (email s) = None" and "\<not> truthy_opt (imageUri s)"
    and "birthDate s = DateVal t"
    and "handleRegister firebase (s, (w, effs)) = (s', (w', effs'))"
  shows "accounts w' (email s) = Some \<lparr>acc_uid = uid_of (next_uid w), acc_password = password s\<rparr> \<and>
         docs w' = docs w \<and> error s' = ''Firebase: Error (permission-denied).'' \<and>
         navigations effs' = navigations effs"
proof -
  define u where "u = uid_of (next_uid w)"
  have run: "handleRegister firebase (s, (w, effs)) =
    (s\<lparr>error := ''Firebase: Error (permission-denied).''\<rparr>,
     (w\<lparr>accounts := (accounts w)(email s \<mapsto> \<lparr>acc_uid = u, acc_password = password s\<rparr>),
        next_uid := Suc (next_uid w), current_user := Some u\<rparr>,
      effs @ [Call (CreateUser (email s) (password s)),
              Call (SetDoc ''users'' u (profile_doc s (iso_date (Day t)) [])),
              ConsoleLog (fb_error ''permission-denied'')]))"
    using assms(1-7) by (simp add: run_simps sdk_defs u_def fb_error_def)
  with assms(8) show ?thesis by (auto simp: u_def)
qed

text \<open>
  C12: Submitting the same draft again after a successful registration is rejected by the
  backend as a duplicate email, and the error shows that message; nothing else is written.
\<close>

theorem second_registration_rejected:
  assumes "faults w = {}" and "password s = confirmPassword s"
    and "valid_email (email s)" and "6 \<le> length (password s)"
    and "accounts w (email s) = None" and "\<not> truthy_opt (imageUri s)"
    and "birthDate s = DateVal t"
    and "handleRegister firebase (s, (w, effs)) = (s', \<sigma>')"
  shows "handleRegister firebase (s', \<sigma>') =
           (s'\<lparr>error := ''Firebase: Error (auth/email-already-in-use).''\<rparr>,
            (fst \<sigma>', snd \<sigma>' @ [Call (CreateUser (email s) (password s)),
               ConsoleLog (fb_error ''auth/email-already-in-use'')]))"
  using assms by (auto simp: run_simps sdk_defs fb_error_def)

text \<open>
  The local day of a time that lies less than \<open>z\<close> milliseconds (at most a day) after
  its UTC midnight, on a device \<open>z\<close> behind UTC, is the day before its UTC day; and the
  text of \<open>DateString\<close> depends on the day only.
\<close>

lemma Day_behind_utc:
  assumes "TimeWithinDay t < z" and "z \<le> msPerDay"
  shows "Day (t - z) = Day t - 1"
proof -
  have t: "t = msPerDay * Day t + TimeWithinDay t" by (simp add: Day_def TimeWithinDay_def)
  have r: "0 \<le> TimeWithinDay t" by (simp add: TimeWithinDay_def msPerDay_def)
  have "t - z = (Day t - 1) * msPerDay + (TimeWithinDay t - z + msPerDay)"
    by (subst t) (simp add: algebra_simps)
  moreover have "0 \<le> TimeWithinDay t - z + msPerDay" "TimeWithinDay t - z + msPerDay < msPerDay"
    using assms r by simp_all
  ultimately show ?thesis
    unfolding Day_def by (simp add: msPerDay_def)
qed

lemma DateString_Day: "DateString t = DateString (msPerDay * Day t)"
  by (simp add: DateString_def Day_def msPerDay_def)

text \<open>
  C13: The birth date is stored as the calendar date of UTC (\<open>toISOString\<close>) but shown
  in local time (\<open>toDateString\<close>): whenever the selected instant lies within the first
  hours of its UTC day, fewer than the device is behind UTC, the screen shows the day
  before the one the profile would store.
\<close>

theorem stored_vs_shown_birth_date:
  assumes "birthDate s = DateVal t" and "TimeWithinDay t < - tza t" and "- tza t \<le> msPerDay"
  shows "birth_date_field (birthDate s) = Inr (iso_date (Day t)) \<and>
         DateText (''Selected Date: '' @ DateString (msPerDay * (Day t - 1))) \<in> set (reg_view tza s)"
proof -
  have "Day (t + tza t) = Day t - 1" using Day_behind_utc [OF assms(2,3)] by simp
  then have "toDateString tza (birthDate s) = DateString (msPerDay * (Day t - 1))"
    using assms(1) DateString_Day [of "t + tza t"] by simp
  then show ?thesis using assms(1) by (simp add: birth_date_field_DateVal reg_view_def)
qed

text \<open>
  C14: In every state the register screen can reach, the birth-date field that
  \<open>handleRegister\<close> would write, \<open>birthDate.toISOString().split('T')[0]\<close>, is a
  date-only string of the ECMAScript Date Time String Format which parses back, as
  \<open>new Date(s)\<close> reads it (date-only forms are UTC), to the UTC midnight of the selected
  day: the stored text determines the day exactly.
\<close>

theorem stored_birth_date_roundtrip:
  assumes "\<bar>now\<bar> \<le> maxTime" and "reg_reachable B tza now c"
  shows "\<exists>t bd. birthDate (fst c) = DateVal t \<and> birth_date_field (birthDate (fst c)) = Inr bd \<and>
                date_only_parse bd = DateVal (msPerDay * Day t)"
proof -
  obtain t where "birthDate (fst c) = DateVal t" "\<bar>t\<bar> \<le> maxTime"
    using reg_reachable_valid_date [OF assms] by (cases "birthDate (fst c)") auto
  then show ?thesis
    using date_only_parse_iso_date [OF Day_bound] by (simp add: birth_date_field_DateVal)
qed

subsection \<open>Witnesses\<close>

text \<open>Each theorem with hypotheses, applied at the concrete inputs above.\<close>

text \<open>
  C20: The register screen never gets stuck: from every state it can reach, with the
  backend working and no image picked, typing a fresh valid email and a password of six
  or more characters into both password fields and pressing Register creates the
  account and navigates to Login, through a state the screen can reach.
\<close>

theorem register_always_reachable:
  assumes "\<bar>now\<bar> \<le> maxTime" and "reg_reachable firebase tza now (s, (w, effs))"
    and "faults w = {}" and "valid_email e" and "6 \<le> length p" and "accounts w e = None"
    and "\<not> truthy_opt (imageUri s)"
  shows "reg_reachable firebase tza now
           (reg_run firebase (s, (w, effs)) [EmailText e, PasswordText p, ConfirmText p, RegisterPress]) \<and>
         navigations (snd (snd (reg_run firebase (s, (w, effs)) [EmailText e, PasswordText p, ConfirmText p, RegisterPress]))) =
           navigations effs @ [Login] \<and>
         accounts (fst (snd (reg_run firebase (s, (w, effs)) [EmailText e, PasswordText p, ConfirmText p, RegisterPress]))) e =
           Some \<lparr>acc_uid = uid_of (next_uid w), acc_password = p\<rparr>"
proof -
  obtain t where t: "birthDate s = DateVal t"
    using reg_reachable_valid_date [OF assms(1,2)] by (cases "birthDate s") auto
  have reach: "reg_reachable firebase tza now
           (reg_run firebase (s, (w, effs)) [EmailText e, PasswordText p, ConfirmText p, RegisterPress])"
    using assms(2) by (auto intro!: reg_reachable.step simp del: reg_step.simps)
  show ?thesis
    using reach assms(3-7) t by (simp add: run_simps sdk_defs)
qed

text \<open>
  C21: The visible error is never cleared: after a press with mismatched passwords, the
  user corrects the confirmation and presses again; the registration completes and the
  screen navigates to Login, yet it still renders \<open>Passwords do not match\<close>.
\<close>

theorem stale_error_after_success:
  assumes "password s \<noteq> confirmPassword s" and "faults w = {}"
    and "valid_email (email s)" and "6 \<le> length (password s)" and "accounts w (email s) = None"
    and "\<not> truthy_opt (imageUri s)" and "birthDate s = DateVal t"
  shows "navigations (snd (snd (reg_run firebase (s, (w, effs)) [RegisterPress, ConfirmText (password s), RegisterPress]))) =
           navigations effs @ [Login] \<and>
         ErrorText mismatch_msg \<in>
           set (reg_view tza (fst (reg_run firebase (s, (w, effs)) [RegisterPress, ConfirmText (password s), RegisterPress])))"
  using assms by (simp add: run_simps sdk_defs reg_view_def mismatch_msg_def)

text \<open>
  C23: From every reachable state, picking an image that is on the device and then
  registering a fresh account uploads the file's bytes to \<open>usuarios/<uid>/profile.jpg\<close>
  of the new account, stores that object's download URL as the profile's
  \<open>photoURL\<close>, and navigates to Login: the picker, the upload and the profile write
  agree on the file, the path and the URL.
\<close>

theorem register_with_picked_image:
  assumes "\<bar>now\<bar> \<le> maxTime" and "reg_reachable firebase tza now (s, (w, effs))"
    and "faults w = {}" and "valid_email e" and "6 \<le> length p" and "accounts w e = None"
    and "uri \<noteq> []" and "device_files w uri = Some b"
  shows "bucket (fst (snd (reg_run firebase (s, (w, effs))
             [PickImagePress (Inr (Picked [uri])), EmailText e, PasswordText p, ConfirmText p, RegisterPress])))
           (profile_path (uid_of (next_uid w))) = Some b \<and>
         (\<exists>d. docs (fst (snd (reg_run firebase (s, (w, effs))
             [PickImagePress (Inr (Picked [uri])), EmailText e, PasswordText p, ConfirmText p, RegisterPress])))
           (''users'', uid_of (next_uid w)) = Some d \<and>
           map_of d ''photoURL'' = Some (download_url (profile_path (uid_of (next_uid w))))) \<and>
         navigations (snd (snd (reg_run firebase (s, (w, effs))
             [PickImagePress (Inr (Picked [uri])), EmailText e, PasswordText p, ConfirmText p, RegisterPress]))) =
           navigations effs @ [Login]"
proof -
  obtain t where t: "birthDate s = DateVal t"
    using reg_reachable_valid_date [OF assms(1,2)] by (cases "birthDate s") auto
  show ?thesis
    using assms(3-8) t
    by (simp add: run_simps sdk_defs pickImage_def upload_photo_def profile_doc_def)
qed

theorem handleRegister_mismatch_witness:
  "password (demo_draft\<lparr>password := ''x1'', confirmPassword := ''y2''\<rparr>) \<noteq>
     confirmPassword (demo_draft\<lparr>password := ''x1'', confirmPassword := ''y2''\<rparr>) \<and>
   handleRegister firebase (demo_draft\<lparr>password := ''x1'', confirmPassword := ''y2''\<rparr>, (demo_world, [])) =
     (demo_draft\<lparr>password := ''x1'', confirmPassword := ''y2'', error := ''Passwords do not match''\<rparr>,
      (demo_world, []))"
  using handleRegister_mismatch [of "demo_draft\<lparr>password := ''x1'', confirmPassword := ''y2''\<rparr>"
      firebase "(demo_world, [])"]
  by simp

theorem handleRegister_no_image_witness:
  "password demo_draft = confirmPassword demo_draft \<and> \<not> truthy_opt (imageUri demo_draft) \<and>
   create_user firebase demo_world (email demo_draft) (password demo_draft) = (Inr demo_user, demo_world1 {}) \<and>
   birth_date_field (birthDate demo_draft) = Inr ''2025-11-09'' \<and>
   set_doc firebase (demo_world1 {}) ''users'' (uid demo_user) (profile_doc demo_draft ''2025-11-09'' []) =
     (Inr (), (demo_world1 {})\<lparr>docs := [(''users'', ''uid0'') \<mapsto> profile_doc demo_draft ''2025-11-09'' []]\<rparr>) \<and>
   handleRegister firebase (demo_draft, (demo_world, [])) =
     (demo_draft, ((demo_world1 {})\<lparr>docs := [(''users'', ''uid0'') \<mapsto> profile_doc demo_draft ''2025-11-09'' []]\<rparr>,
       [Call (CreateUser (email demo_draft) (password demo_draft)),
        Call (SetDoc ''users'' (uid demo_user) (profile_doc demo_draft ''2025-11-09'' [])),
        Alert reg_success_title reg_success_msg, Navigate Login]))"
proof -
  have h: "password demo_draft = confirmPassword demo_draft" "\<not> truthy_opt (imageUri demo_draft)"
    "create_user firebase demo_world (email demo_draft) (password demo_draft) = (Inr demo_user, demo_world1 {})"
    "birth_date_field (birthDate demo_draft) = Inr ''2025-11-09''"
    "set_doc firebase (demo_world1 {}) ''users'' (uid demo_user) (profile_doc demo_draft ''2025-11-09'' []) =
     (Inr (), (demo_world1 {})\<lparr>docs := [(''users'', ''uid0'') \<mapsto> profile_doc demo_draft ''2025-11-09'' []]\<rparr>)"
    using demo_create [of "{}"]
    by (simp_all add: demo_draft_fields demo_world_faults fb_set_doc_def demo_user_def
        birth_date_field_DateVal demo_iso)
  show ?thesis using h handleRegister_no_image [OF h, where effs = "[]"] by simp
qed

theorem handleRegister_with_image_witness:
  "password demo_img_draft = confirmPassword demo_img_draft \<and>
   imageUri demo_img_draft = Some ''file:///photo.jpg'' \<and> ''file:///photo.jpg'' \<noteq> [] \<and>
   create_user firebase demo_world (email demo_img_draft) (password demo_img_draft) = (Inr demo_user, demo_world1 {}) \<and>
   fetch_uri firebase (demo_world1 {}) ''file:///photo.jpg'' = (Inr ''JPEG'', demo_world1 {}) \<and>
   response_blob firebase (demo_world1 {}) ''JPEG'' = (Inr ''JPEG'', demo_world1 {}) \<and>
   upload_bytes firebase (demo_world1 {}) (profile_path (uid demo_user)) ''JPEG'' =
     (Inr (), (demo_world1 {})\<lparr>bucket := [profile_path ''uid0'' \<mapsto> ''JPEG'']\<rparr>) \<and>
   get_download_url firebase ((demo_world1 {})\<lparr>bucket := [profile_path ''uid0'' \<mapsto> ''JPEG'']\<rparr>)
     (profile_path (uid demo_user)) =
     (Inr (download_url (profile_path ''uid0'')), (demo_world1 {})\<lparr>bucket := [profile_path ''uid0'' \<mapsto> ''JPEG'']\<rparr>) \<and>
   birth_date_field (birthDate demo_img_draft) = Inr ''2025-11-09'' \<and>
   set_doc firebase ((demo_world1 {})\<lparr>bucket := [profile_path ''uid0'' \<mapsto> ''JPEG'']\<rparr>) ''users'' (uid demo_user)
     (profile_doc demo_img_draft ''2025-11-09'' (download_url (profile_path ''uid0''))) =
     (Inr (), (demo_world1 {})\<lparr>bucket := [profile_path ''uid0'' \<mapsto> ''JPEG''],
        docs := [(''users'', ''uid0'') \<mapsto> profile_doc demo_img_draft ''2025-11-09'' (download_url (profile_path ''uid0''))]\<rparr>) \<and>
   handleRegister firebase (demo_img_draft, (demo_world, [])) =
     (demo_img_draft, ((demo_world1 {})\<lparr>bucket := [profile_path ''uid0'' \<mapsto> ''JPEG''],
        docs := [(''users'', ''uid0'') \<mapsto> profile_doc demo_img_draft ''2025-11-09'' (download_url (profile_path ''uid0''))]\<rparr>,
      [Call (CreateUser (email demo_img_draft) (password demo_img_draft)), Call (Fetch ''file:///photo.jpg''),
       Call ReadBlob, Call (UploadBytes (profile_path (uid demo_user)) ''JPEG''),
       Call (GetDownloadURL (profile_path (uid demo_user))),
       Call (SetDoc ''users'' (uid demo_user) (profile_doc demo_img_draft ''2025-11-09'' (download_url (profile_path ''uid0'')))),
       Alert reg_success_title reg_success_msg, Navigate Login]))"
proof -
  have f: "email demo_img_draft = ''a@b.com''" "password demo_img_draft = ''x1secret''"
    "confirmPassword demo_img_draft = ''x1secret''" "imageUri demo_img_draft = Some ''file:///photo.jpg''"
    "birthDate demo_img_draft = DateVal 1762646400000"
    by (simp_all add: demo_img_draft_def demo_draft_fields)
  have h: "password demo_img_draft = confirmPassword demo_img_draft"
    "imageUri demo_img_draft = Some ''file:///photo.jpg''" "''file:///photo.jpg'' \<noteq> []"
    "create_user firebase demo_world (email demo_img_draft) (password demo_img_draft) = (Inr demo_user, demo_world1 {})"
    "fetch_uri firebase (demo_world1 {}) ''file:///photo.jpg'' = (Inr ''JPEG'', demo_world1 {})"
    "response_blob firebase (demo_world1 {}) ''JPEG'' = (Inr ''JPEG'', demo_world1 {})"
    "upload_bytes firebase (demo_world1 {}) (profile_path (uid demo_user)) ''JPEG'' =
       (Inr (), (demo_world1 {})\<lparr>bucket := [profile_path ''uid0'' \<mapsto> ''JPEG'']\<rparr>)"
    "get_download_url firebase ((demo_world1 {})\<lparr>bucket := [profile_path ''uid0'' \<mapsto> ''JPEG'']\<rparr>)
       (profile_path (uid demo_user)) =
       (Inr (download_url (profile_path ''uid0'')), (demo_world1 {})\<lparr>bucket := [profile_path ''uid0'' \<mapsto> ''JPEG'']\<rparr>)"
    "birth_date_field (birthDate demo_img_draft) = Inr ''2025-11-09''"
    "set_doc firebase ((demo_world1 {})\<lparr>bucket := [profile_path ''uid0'' \<mapsto> ''JPEG'']\<rparr>) ''users'' (uid demo_user)
       (profile_doc demo_img_draft ''2025-11-09'' (download_url (profile_path ''uid0''))) =
       (Inr (), (demo_world1 {})\<lparr>bucket := [profile_path ''uid0'' \<mapsto> ''JPEG''],
          docs := [(''users'', ''uid0'') \<mapsto> profile_doc demo_img_draft ''2025-11-09'' (download_url (profile_path ''uid0''))]\<rparr>)"
    using demo_create [of "{}"]
    by (simp_all add: f demo_world_faults fb_defs demo_user_def birth_date_field_DateVal demo_iso)
  show ?thesis using h handleRegister_with_image [OF h, where effs = "[]"] by simp
qed

theorem handleRegister_setDoc_fails_witness:
  "password demo_draft = confirmPassword demo_draft \<and> \<not> truthy_opt (imageUri demo_draft) \<and>
   create_user firebase (demo_world\<lparr>faults := {OpSetDoc}\<rparr>) (email demo_draft) (password demo_draft) =
     (Inr demo_user, demo_world1 {OpSetDoc}) \<and>
   birth_date_field (birthDate demo_draft) = Inr ''2025-11-09'' \<and>
   set_doc firebase (demo_world1 {OpSetDoc}) ''users'' (uid demo_user) (profile_doc demo_draft ''2025-11-09'' []) =
     (Inl (fb_error ''permission-denied''), demo_world1 {OpSetDoc}) \<and>
   handleRegister firebase (demo_draft, (demo_world\<lparr>faults := {OpSetDoc}\<rparr>, [])) =
     (demo_draft\<lparr>error := js_message (fb_error ''permission-denied'')\<rparr>, (demo_world1 {OpSetDoc},
       [Call (CreateUser (email demo_draft) (password demo_draft)),
        Call (SetDoc ''users'' (uid demo_user) (profile_doc demo_draft ''2025-11-09'' [])),
        ConsoleLog (fb_error ''permission-denied'')]))"
proof -
  have h: "password demo_draft = confirmPassword demo_draft" "\<not> truthy_opt (imageUri demo_draft)"
    "create_user firebase (demo_world\<lparr>faults := {OpSetDoc}\<rparr>) (email demo_draft) (password demo_draft) =
       (Inr demo_user, demo_world1 {OpSetDoc})"
    "birth_date_field (birthDate demo_draft) = Inr ''2025-11-09''"
    "set_doc firebase (demo_world1 {OpSetDoc}) ''users'' (uid demo_user) (profile_doc demo_draft ''2025-11-09'' []) =
       (Inl (fb_error ''permission-denied''), demo_world1 {OpSetDoc})"
    using demo_create [of "{OpSetDoc}"]
    by (simp_all add: demo_draft_fields fb_set_doc_def birth_date_field_DateVal demo_iso)
  show ?thesis using h handleRegister_setDoc_fails [OF h, where effs = "[]"] by simp
qed

theorem handleRegister_upload_fails_witness:
  "password demo_missing_draft = confirmPassword demo_missing_draft \<and>
   create_user firebase demo_world (email demo_missing_draft) (password demo_missing_draft) =
     (Inr demo_user, demo_world1 {}) \<and>
   upload_photo firebase (uid demo_user) (imageUri demo_missing_draft)
     (demo_world1 {}, [Call (CreateUser (email demo_missing_draft) (password demo_missing_draft))]) =
     (Inl (TypeError ''Network request failed''), (demo_world1 {},
       [Call (CreateUser (email demo_missing_draft) (password demo_missing_draft)), Call (Fetch ''file:///missing.jpg'')])) \<and>
   handleRegister firebase (demo_missing_draft, (demo_world, [])) =
     (demo_missing_draft\<lparr>error := js_message (TypeError ''Network request failed'')\<rparr>,
      (demo_world1 {}, [Call (CreateUser (email demo_missing_draft) (password demo_missing_draft)),
        Call (Fetch ''file:///missing.jpg''), ConsoleLog (TypeError ''Network request failed'')])) \<and>
   (\<exists>new. [Call (CreateUser (email demo_missing_draft) (password demo_missing_draft)), Call (Fetch ''file:///missing.jpg'')] =
      [] @ Call (CreateUser (email demo_missing_draft) (password demo_missing_draft)) # new \<and>
      (\<forall>c k d. SetDoc c k d \<notin> set (requests new)) \<and> navigations new = [])"
proof -
  have f: "email demo_missing_draft = ''a@b.com''" "password demo_missing_draft = ''x1secret''"
    "confirmPassword demo_missing_draft = ''x1secret''"
    "imageUri demo_missing_draft = Some ''file:///missing.jpg''"
    by (simp_all add: demo_missing_draft_def demo_draft_fields)
  have h: "password demo_missing_draft = confirmPassword demo_missing_draft"
    "create_user firebase demo_world (email demo_missing_draft) (password demo_missing_draft) =
       (Inr demo_user, demo_world1 {})"
    "upload_photo firebase (uid demo_user) (imageUri demo_missing_draft)
       (demo_world1 {}, [Call (CreateUser (email demo_missing_draft) (password demo_missing_draft))]) =
       (Inl (TypeError ''Network request failed''), (demo_world1 {},
         [Call (CreateUser (email demo_missing_draft) (password demo_missing_draft)), Call (Fetch ''file:///missing.jpg'')]))"
    using demo_create [of "{}"]
    by (simp_all add: f demo_world_faults upload_photo_def sdk_defs act_simps fb_fetch_def)
  then have h3: "upload_photo firebase (uid demo_user) (imageUri demo_missing_draft)
       (demo_world1 {}, [] @ [Call (CreateUser (email demo_missing_draft) (password demo_missing_draft))]) =
       (Inl (TypeError ''Network request failed''), (demo_world1 {},
         [Call (CreateUser (email demo_missing_draft) (password demo_missing_draft)), Call (Fetch ''file:///missing.jpg'')]))"
    by simp
  show ?thesis using h handleRegister_upload_fails [OF h(1) h(2) h3] by simp
qed

theorem handleRegister_create_fails_witness:
  "password (demo_draft\<lparr>password := ''x1'', confirmPassword := ''x1''\<rparr>) =
     confirmPassword (demo_draft\<lparr>password := ''x1'', confirmPassword := ''x1''\<rparr>) \<and>
   create_user firebase demo_world (email demo_draft) ''x1'' = (Inl (fb_error ''auth/weak-password''), demo_world) \<and>
   handleRegister firebase (demo_draft\<lparr>password := ''x1'', confirmPassword := ''x1''\<rparr>, (demo_world, [])) =
     (demo_draft\<lparr>password := ''x1'', confirmPassword := ''x1'', error := js_message (fb_error ''auth/weak-password'')\<rparr>,
      (demo_world, [Call (CreateUser (email demo_draft) ''x1''), ConsoleLog (fb_error ''auth/weak-password'')]))"
proof -
  have h: "password (demo_draft\<lparr>password := ''x1'', confirmPassword := ''x1''\<rparr>) =
       confirmPassword (demo_draft\<lparr>password := ''x1'', confirmPassword := ''x1''\<rparr>)"
    "create_user firebase demo_world (email (demo_draft\<lparr>password := ''x1'', confirmPassword := ''x1''\<rparr>))
       (password (demo_draft\<lparr>password := ''x1'', confirmPassword := ''x1''\<rparr>)) =
       (Inl (fb_error ''auth/weak-password''), demo_world)"
    by (simp_all add: demo_draft_fields fb_create_user_def demo_world_def valid_email_def)
  show ?thesis using h handleRegister_create_fails [OF h, where effs = "[]"] by simp
qed

theorem logueo_resolves_witness:
  "sign_in firebase (demo_world1 {}) (login_email \<lparr>login_email = Some ''a@b.com'', login_password = Some ''x1secret''\<rparr>)
     (login_password \<lparr>login_email = Some ''a@b.com'', login_password = Some ''x1secret''\<rparr>) =
     (Inr demo_user, (demo_world1 {})\<lparr>current_user := Some ''uid0''\<rparr>) \<and>
   logueo firebase \<lparr>login_email = Some ''a@b.com'', login_password = Some ''x1secret''\<rparr> (demo_world1 {}, []) =
     (Inr (), ((demo_world1 {})\<lparr>current_user := Some ''uid0''\<rparr>,
       [Call (SignIn (Some ''a@b.com'') (Some ''x1secret'')), Alert ''Iniciando Sesion'' ''Accediendo.....'', Navigate Home]))"
proof -
  have h: "sign_in firebase (demo_world1 {}) (login_email \<lparr>login_email = Some ''a@b.com'', login_password = Some ''x1secret''\<rparr>)
     (login_password \<lparr>login_email = Some ''a@b.com'', login_password = Some ''x1secret''\<rparr>) =
     (Inr demo_user, (demo_world1 {})\<lparr>current_user := Some ''uid0''\<rparr>)"
    by (simp add: fb_sign_in_def demo_account_def demo_user_def)
  show ?thesis using h logueo_resolves [OF h, where effs = "[]"] by simp
qed

theorem logueo_rejects_witness:
  "sign_in firebase demo_world (login_email login_init) (login_password login_init) =
     (Inl (fb_error ''auth/invalid-email''), demo_world) \<and>
   logueo firebase login_init (demo_world, []) =
     (Inr (), (demo_world, [Call (SignIn None None), ConsoleLog (fb_error ''auth/invalid-email''),
                            Alert login_error_title login_error_msg]))"
proof -
  have h: "sign_in firebase demo_world (login_email login_init) (login_password login_init) =
     (Inl (fb_error ''auth/invalid-email''), demo_world)"
    by (simp add: fb_sign_in_def demo_world_def login_init_def)
  show ?thesis using h logueo_rejects [OF h, where effs = "[]"] by (simp add: login_init_def)
qed

theorem reachable_birthDate_valid_witness:
  "\<bar>1762646400000::int\<bar> \<le> maxTime \<and> reg_reachable firebase (\<lambda>_. 0) 1762646400000 demo_picked_state \<and>
   (\<exists>t. birthDate (fst demo_picked_state) = DateVal t \<and> \<bar>t\<bar> \<le> maxTime \<and>
        birth_date_field (birthDate (fst demo_picked_state)) = Inr (iso_date (Day t)))"
proof -
  have now: "\<bar>1762646400000::int\<bar> \<le> maxTime" by (simp add: maxTime_def)
  have r0: "reg_reachable firebase (\<lambda>_. 0) 1762646400000 (reg_init 1762646400000, (demo_world, []))"
    by (rule reg_reachable.mount)
  have r1: "reg_reachable firebase (\<lambda>_. 0) 1762646400000
      (reg_step firebase (reg_init 1762646400000, (demo_world, [])) DateButtonPress)"
    by (rule reg_reachable.step [OF r0]) simp_all
  have r2: "reg_reachable firebase (\<lambda>_. 0) 1762646400000 demo_picked_state"
    unfolding demo_picked_state_def
    by (rule reg_reachable.step [OF r1]) (simp_all add: reg_view_def maxTime_def)
  show ?thesis using now r2 reachable_birthDate_valid [OF now r2] by simp
qed

theorem register_then_login_witness:
  "faults demo_world = {} \<and> password demo_draft = confirmPassword demo_draft \<and>
   valid_email (email demo_draft) \<and> 6 \<le> length (password demo_draft) \<and>
   accounts demo_world (email demo_draft) = None \<and> \<not> truthy_opt (imageUri demo_draft) \<and>
   birthDate demo_draft = DateVal 1762646400000 \<and>
   handleRegister firebase (demo_draft, (demo_world, [])) = (demo_draft, (demo_profile_world, demo_register_effects)) \<and>
   docs demo_profile_world (''users'', uid_of (next_uid demo_world)) =
     Some (profile_doc demo_draft (iso_date (Day 1762646400000)) []) \<and>
   navigations demo_register_effects = navigations [] @ [Login] \<and>
   login_run firebase (login_init, (demo_profile_world, demo_register_effects))
     [LoginEmailText (email demo_draft), LoginPasswordText (password demo_draft), SignInPress] =
     (\<lparr>login_email = Some (email demo_draft), login_password = Some (password demo_draft)\<rparr>,
      (demo_profile_world\<lparr>current_user := Some (uid_of (next_uid demo_world))\<rparr>,
       demo_register_effects @ [Call (SignIn (Some (email demo_draft)) (Some (password demo_draft))),
         Alert ''Iniciando Sesion'' ''Accediendo.....'', Navigate Home]))"
proof -
  have h: "faults demo_world = {}" "password demo_draft = confirmPassword demo_draft"
    "valid_email (email demo_draft)" "6 \<le> length (password demo_draft)"
    "accounts demo_world (email demo_draft) = None" "\<not> truthy_opt (imageUri demo_draft)"
    "birthDate demo_draft = DateVal 1762646400000"
    by (simp_all add: demo_world_def demo_draft_fields valid_email_def)
  show ?thesis using h demo_register_run register_then_login [OF h demo_register_run] by simp
qed

theorem orphaned_account_witness:
  "faults (demo_world\<lparr>faults := {OpSetDoc}\<rparr>) = {OpSetDoc} \<and> password demo_draft = confirmPassword demo_draft \<and>
   valid_email (email demo_draft) \<and> 6 \<le> length (password demo_draft) \<and>
   accounts (demo_world\<lparr>faults := {OpSetDoc}\<rparr>) (email demo_draft) = None \<and> \<not> truthy_opt (imageUri demo_draft) \<and>
   birthDate demo_draft = DateVal 1762646400000 \<and>
   accounts (demo_world1 {OpSetDoc}) (email demo_draft) =
     Some \<lparr>acc_uid = uid_of (next_uid demo_world), acc_password = password demo_draft\<rparr> \<and>
   docs (demo_world1 {OpSetDoc}) = docs demo_world \<and>
   error (demo_draft\<lparr>error := ''Firebase: Error (permission-denied).''\<rparr>) = ''Firebase: Error (permission-denied).''"
proof -
  have h: "faults (demo_world\<lparr>faults := {OpSetDoc}\<rparr>) = {OpSetDoc}" "password demo_draft = confirmPassword demo_draft"
    "valid_email (email demo_draft)" "6 \<le> length (password demo_draft)"
    "accounts (demo_world\<lparr>faults := {OpSetDoc}\<rparr>) (email demo_draft) = None" "\<not> truthy_opt (imageUri demo_draft)"
    "birthDate demo_draft = DateVal 1762646400000"
    by (simp_all add: demo_world_def demo_draft_fields valid_email_def)
  show ?thesis using h orphaned_account [OF h demo_orphan_run] by simp
qed

theorem second_registration_rejected_witness:
  "handleRegister firebase (demo_draft, (demo_world, [])) = (demo_draft, (demo_profile_world, demo_register_effects)) \<and>
   handleRegister firebase (demo_draft, (demo_profile_world, demo_register_effects)) =
     (demo_draft\<lparr>error := ''Firebase: Error (auth/email-already-in-use).''\<rparr>,
      (demo_profile_world, demo_register_effects @ [Call (CreateUser ''a@b.com'' ''x1secret''),
         ConsoleLog (fb_error ''auth/email-already-in-use'')]))"
proof -
  have h: "faults demo_world = {}" "password demo_draft = confirmPassword demo_draft"
    "valid_email (email demo_draft)" "6 \<le> length (password demo_draft)"
    "accounts demo_world (email demo_draft) = None" "\<not> truthy_opt (imageUri demo_draft)"
    "birthDate demo_draft = DateVal 1762646400000"
    by (simp_all add: demo_world_def demo_draft_fields valid_email_def)
  show ?thesis using demo_register_run second_registration_rejected [OF h demo_register_run]
    by (simp add: demo_draft_fields)
qed

theorem reg_step_frame_witness:
  "PickImagePress (Inr (Picked [''file:///photo.jpg''])) \<noteq> RegisterPress \<and>
   snd (reg_step firebase (demo_draft, (demo_world, [])) (PickImagePress (Inr (Picked [''file:///photo.jpg''])))) =
     (demo_world, [])"
  using reg_step_frame [of "PickImagePress (Inr (Picked [''file:///photo.jpg'']))" firebase "(demo_draft, (demo_world, []))"]
  by simp

theorem double_submit_outcome_witness:
  "fresh_draft demo_draft demo_world ''2025-11-09'' \<and>
   race_reach firebase demo_draft (demo_world, [])
     (race_run firebase demo_draft [T1, T2, T1] (race_start demo_draft (demo_world, []))) \<and>
   is_end (th1 (race_run firebase demo_draft [T1, T2, T1] (race_start demo_draft (demo_world, [])))) \<and>
   is_end (th2 (race_run firebase demo_draft [T1, T2, T1] (race_start demo_draft (demo_world, [])))) \<and>
   error (screen (race_run firebase demo_draft [T1, T2, T1] (race_start demo_draft (demo_world, [])))) =
     ''Firebase: Error (auth/email-already-in-use).'' \<and>
   navigations (snd (env (race_run firebase demo_draft [T1, T2, T1] (race_start demo_draft (demo_world, []))))) =
     [Login]"
proof -
  have f: "fresh_draft demo_draft demo_world ''2025-11-09''"
    by (simp add: fresh_draft_def demo_world_def demo_draft_fields valid_email_def
        birth_date_field_DateVal demo_iso)
  have reach: "race_reach firebase demo_draft (demo_world, [])
     (race_run firebase demo_draft [T1, T2, T1] (race_start demo_draft (demo_world, [])))"
    by (rule race_run_reach [OF race_reach.start])
  let ?c = "Call (CreateUser (email demo_draft) (password demo_draft))"
  have s1: "reg_resume firebase demo_draft PcStart (demo_world, []) =
      (Inr (PcCreated (new_user demo_draft demo_world)), (won_world demo_draft demo_world, [?c]))"
    using resume_start_fresh [OF f, of "[]"] by simp
  have s2: "reg_resume firebase demo_draft PcStart (won_world demo_draft demo_world, [?c]) =
      (Inr (PcEnd (Some dup_msg)), (won_world demo_draft demo_world,
         [?c] @ [?c, ConsoleLog (fb_error ''auth/email-already-in-use'')]))"
    by (rule resume_start_dup) (simp_all add: won_world_def demo_world_def demo_draft_fields valid_email_def)
  have s3: "reg_resume firebase demo_draft (PcCreated (new_user demo_draft demo_world))
        (won_world demo_draft demo_world, [?c, ?c, ConsoleLog (fb_error ''auth/email-already-in-use'')]) =
      (Inr (PcEnd None), ((won_world demo_draft demo_world)\<lparr>docs := (docs (won_world demo_draft demo_world))
           ((''users'', uid (new_user demo_draft demo_world)) \<mapsto> profile_doc demo_draft ''2025-11-09'' [])\<rparr>,
         [?c, ?c, ConsoleLog (fb_error ''auth/email-already-in-use'')] @
         [Call (SetDoc ''users'' (uid (new_user demo_draft demo_world)) (profile_doc demo_draft ''2025-11-09'' [])),
          Alert reg_success_title reg_success_msg, Navigate Login]))"
    using f by (intro resume_created_store) (simp_all add: fresh_draft_def won_world_def demo_world_def)
  have ends: "is_end (th1 (race_run firebase demo_draft [T1, T2, T1] (race_start demo_draft (demo_world, [])))) \<and>
     is_end (th2 (race_run firebase demo_draft [T1, T2, T1] (race_start demo_draft (demo_world, []))))"
    by (simp add: race_start_def resume_thread_def s1 s2 s3 del: reg_resume.simps)
  have out: "\<And>R. race_reach firebase demo_draft (demo_world, []) R \<Longrightarrow> is_end (th1 R) \<Longrightarrow> is_end (th2 R) \<Longrightarrow>
      error (screen R) = ''Firebase: Error (auth/email-already-in-use).'' \<and> navigations (snd (env R)) = [Login]"
    using double_submit_outcome [OF f] by (simp add: dup_msg_def)
  show ?thesis using f reach ends out [OF reach] by blast
qed

theorem handleRegister_writes_profile_witness:
  "handleRegister firebase (demo_draft, (demo_world, [])) = (demo_draft, (demo_profile_world, demo_register_effects)) \<and>
   Call (SetDoc ''users'' ''uid0'' (profile_doc demo_draft ''2025-11-09'' [])) \<in> set (drop (length []) demo_register_effects) \<and>
   ''users'' = ''users'' \<and>
   (\<exists>u w1. create_user firebase demo_world (email demo_draft) (password demo_draft) = (Inr u, w1) \<and> ''uid0'' = uid u) \<and>
   map fst (profile_doc demo_draft ''2025-11-09'' []) = profile_fields"
proof -
  have m: "Call (SetDoc ''users'' ''uid0'' (profile_doc demo_draft ''2025-11-09'' [])) \<in> set (drop (length []) demo_register_effects)"
    by (simp add: demo_register_effects_def)
  show ?thesis using demo_register_run m handleRegister_writes_profile [OF demo_register_run m] by blast
qed

theorem register_always_reachable_witness:
  "\<bar>1762646400000::int\<bar> \<le> maxTime \<and>
   reg_reachable firebase (\<lambda>_. 0) 1762646400000 (reg_init 1762646400000, (demo_world, [])) \<and>
   faults demo_world = {} \<and> valid_email ''a@b.com'' \<and> 6 \<le> length ''x1secret'' \<and>
   accounts demo_world ''a@b.com'' = None \<and> \<not> truthy_opt (imageUri (reg_init 1762646400000)) \<and>
   navigations (snd (snd (reg_run firebase (reg_init 1762646400000, (demo_world, []))
     [EmailText ''a@b.com'', PasswordText ''x1secret'', ConfirmText ''x1secret'', RegisterPress]))) = [Login]"
proof -
  have m: "reg_reachable firebase (\<lambda>_. 0) 1762646400000 (reg_init 1762646400000, (demo_world, []))"
    by (rule reg_reachable.mount)
  have h: "\<bar>1762646400000::int\<bar> \<le> maxTime"
    "reg_reachable firebase (\<lambda>_. 0) 1762646400000 (reg_init 1762646400000, (demo_world, []))"
    "faults demo_world = {}" "valid_email ''a@b.com''" "6 \<le> length ''x1secret''"
    "accounts demo_world ''a@b.com'' = None" "\<not> truthy_opt (imageUri (reg_init 1762646400000))"
    using m by (simp_all add: maxTime_def demo_world_def valid_email_def reg_init_def)
  show ?thesis using h register_always_reachable [OF h] by simp
qed

theorem stale_error_after_success_witness:
  "password (demo_draft\<lparr>confirmPassword := ''x1secreT''\<rparr>) \<noteq> confirmPassword (demo_draft\<lparr>confirmPassword := ''x1secreT''\<rparr>) \<and>
   faults demo_world = {} \<and> valid_email (email (demo_draft\<lparr>confirmPassword := ''x1secreT''\<rparr>)) \<and>
   6 \<le> length (password (demo_draft\<lparr>confirmPassword := ''x1secreT''\<rparr>)) \<and>
   accounts demo_world (email (demo_draft\<lparr>confirmPassword := ''x1secreT''\<rparr>)) = None \<and>
   \<not> truthy_opt (imageUri (demo_draft\<lparr>confirmPassword := ''x1secreT''\<rparr>)) \<and>
   birthDate (demo_draft\<lparr>confirmPassword := ''x1secreT''\<rparr>) = DateVal 1762646400000 \<and>
   ErrorText ''Passwords do not match'' \<in>
     set (reg_view (\<lambda>_. 0) (fst (reg_run firebase (demo_draft\<lparr>confirmPassword := ''x1secreT''\<rparr>, (demo_world, []))
       [RegisterPress, ConfirmText (password (demo_draft\<lparr>confirmPassword := ''x1secreT''\<rparr>)), RegisterPress])))"
proof -
  have h: "password (demo_draft\<lparr>confirmPassword := ''x1secreT''\<rparr>) \<noteq> confirmPassword (demo_draft\<lparr>confirmPassword := ''x1secreT''\<rparr>)"
    "faults demo_world = {}" "valid_email (email (demo_draft\<lparr>confirmPassword := ''x1secreT''\<rparr>))"
    "6 \<le> length (password (demo_draft\<lparr>confirmPassword := ''x1secreT''\<rparr>))"
    "accounts demo_world (email (demo_draft\<lparr>confirmPassword := ''x1secreT''\<rparr>)) = None"
    "\<not> truthy_opt (imageUri (demo_draft\<lparr>confirmPassword := ''x1secreT''\<rparr>))"
    "birthDate (demo_draft\<lparr>confirmPassword := ''x1secreT''\<rparr>) = DateVal 1762646400000"
    by (simp_all add: demo_draft_fields demo_world_def valid_email_def)
  show ?thesis using h stale_error_after_success [OF h, of "[]" "\<lambda>_. 0"] by (simp add: mismatch_msg_def)
qed

theorem double_sign_in_witness:
  "sign_in firebase (demo_world1 {}) (Some ''a@b.com'') (Some ''x1secret'') =
     (Inr demo_user, demo_world1 {}) \<and>
   navigations (snd (snd (snd (login_race firebase \<lparr>login_email = Some ''a@b.com'', login_password = Some ''x1secret''\<rparr>
     (LgStart, LgStart, (demo_world1 {}, [])) [True, False, True, False])))) = [Home, Home]"
proof -
  have h: "sign_in firebase (demo_world1 {}) (login_email \<lparr>login_email = Some ''a@b.com'', login_password = Some ''x1secret''\<rparr>)
      (login_password \<lparr>login_email = Some ''a@b.com'', login_password = Some ''x1secret''\<rparr>) = (Inr demo_user, demo_world1 {})"
    by (simp add: fb_sign_in_def demo_account_def demo_user_def demo_world1_def demo_world_def)
  show ?thesis using h double_sign_in [OF h h, of "[]"] by simp
qed

theorem stored_vs_shown_birth_date_witness:
  "birthDate demo_draft = DateVal 1762646400000 \<and>
   TimeWithinDay 1762646400000 < - (\<lambda>_. - 18000000::int) 1762646400000 \<and>
   - (\<lambda>_. - 18000000::int) 1762646400000 \<le> msPerDay \<and>
   birth_date_field (birthDate demo_draft) = Inr ''2025-11-09'' \<and>
   DateText ''Selected Date: Sat Nov 08 2025'' \<in> set (reg_view (\<lambda>_. - 18000000) demo_draft)"
proof -
  have h: "birthDate demo_draft = DateVal 1762646400000"
    "TimeWithinDay 1762646400000 < - (\<lambda>_. - 18000000::int) 1762646400000"
    "- (\<lambda>_. - 18000000::int) 1762646400000 \<le> msPerDay"
    by (simp_all add: demo_draft_fields TimeWithinDay_def msPerDay_def)
  have d: "DateString (msPerDay * (Day 1762646400000 - 1)) = ''Sat Nov 08 2025''" by code_simp
  show ?thesis using h stored_vs_shown_birth_date [OF h] by (simp only: d demo_iso) simp
qed

theorem stored_birth_date_roundtrip_witness:
  "\<bar>1762646400000::int\<bar> \<le> maxTime \<and> reg_reachable firebase (\<lambda>_. 0) 1762646400000 (reg_init 1762646400000, (demo_world, [])) \<and>
   birth_date_field (birthDate (reg_init 1762646400000)) = Inr ''2025-11-09'' \<and>
   date_only_parse ''2025-11-09'' = DateVal (msPerDay * Day 1762646400000)"
proof -
  have h: "\<bar>1762646400000::int\<bar> \<le> maxTime" by (simp add: maxTime_def)
  have r: "reg_reachable firebase (\<lambda>_. 0) 1762646400000 (reg_init 1762646400000, (demo_world, []))"
    by (rule reg_reachable.mount)
  have b: "birthDate (reg_init 1762646400000) = DateVal 1762646400000"
    by (simp add: reg_init_def TimeClip_def maxTime_def)
  show ?thesis using h r stored_birth_date_roundtrip [OF h r] by (simp add: b birth_date_field_DateVal demo_iso)
qed

theorem register_with_picked_image_witness:
  "\<bar>1762646400000::int\<bar> \<le> maxTime \<and>
   reg_reachable firebase (\<lambda>_. 0) 1762646400000 (reg_init 1762646400000, (demo_world, [])) \<and>
   faults demo_world = {} \<and> valid_email ''a@b.com'' \<and> 6 \<le> length ''x1secret'' \<and>
   accounts demo_world ''a@b.com'' = None \<and> ''file:///photo.jpg'' \<noteq> [] \<and>
   device_files demo_world ''file:///photo.jpg'' = Some ''JPEG'' \<and>
   bucket (fst (snd (reg_run firebase (reg_init 1762646400000, (demo_world, []))
     [PickImagePress (Inr (Picked [''file:///photo.jpg''])), EmailText ''a@b.com'', PasswordText ''x1secret'',
      ConfirmText ''x1secret'', RegisterPress]))) (profile_path (uid_of (next_uid demo_world))) = Some ''JPEG''"
proof -
  have m: "reg_reachable firebase (\<lambda>_. 0) 1762646400000 (reg_init 1762646400000, (demo_world, []))"
    by (rule reg_reachable.mount)
  have h: "\<bar>1762646400000::int\<bar> \<le> maxTime"
    "reg_reachable firebase (\<lambda>_. 0) 1762646400000 (reg_init 1762646400000, (demo_world, []))"
    "faults demo_world = {}" "valid_email ''a@b.com''" "6 \<le> length ''x1secret''"
    "accounts demo_world ''a@b.com'' = None" "''file:///photo.jpg'' \<noteq> []"
    "device_files demo_world ''file:///photo.jpg'' = Some ''JPEG''"
    using m by (simp_all add: maxTime_def demo_world_def valid_email_def)
  show ?thesis using h register_with_picked_image [OF h] by blast
qed

end
